theory Spec2Isabelle
  imports Complex_Main
begin

section \<open>Values, memory locations and errors\<close>

text \<open>
  A JavaScript \<open>number\<close> that holds an address, a size or an index is an \<open>int\<close>. A
  \<open>number\<close> that is a PLC value is \<open>VNum r\<close> for a real \<open>r\<close> (a finite double, taken
  without rounding) or \<open>VNaN\<close>; the infinities are left out. A \<open>bigint\<close> is \<open>VBig i\<close>.
  A \<open>Buffer\<close> is a list of bytes, given as their values. An object is the list of its
  entries in the order \<open>Object.entries\<close> yields them, with distinct keys.
\<close>

type_synonym buffer = "nat list"

datatype jsval =
    VUndefined
  | VNull
  | VBool bool
  | VNum real
  | VNaN
  | VBig int
  | VStr string
  | VObj "(string \<times> jsval) list"
  | VArr "jsval list"

text \<open>\<open>TcSymbolPointer\<close> and \<open>TcDataPackage\<close> of tc-com.ts.\<close>

datatype TcSymbolPointer =
  TcSymbolPointer (ptr_indexGroup: int) (ptr_indexOffset: int) (ptr_size: int)

datatype TcDataPackage =
  TcDataPackage (pkg_indexGroup: int) (pkg_indexOffset: int) (pkg_data: buffer)

text \<open>
  The exceptions of tc-exception.ts that the modelled code raises, the \<open>TypeError\<close> of the
  JavaScript runtime, and the plain \<open>Error\<close> thrown by \<open>TcNamespaceBinding.__addChild\<close>.
\<close>

datatype error =
    TcBindingIsInvalidException
  | TcBindingInvalidTypeException
  | TcBindingOutOfRangeException
  | TcBindingReadOnlyException
  | TcComIsInvalidException
  | TcComDisconnectException
  | TcComUnsubscribeException
  | TcComFromRawException
  | TcComToRawException
  | TcComDataWriteException
  | TcComDataReadException
  | JsTypeError
  | JsError string

section \<open>TcCom: the transport facade\<close>

subsection \<open>Splitting a request\<close>

text \<open>
  \<open>Array.prototype.slice(start, end)\<close> for \<open>0 \<le> start\<close> and \<open>0 \<le> end\<close>: the elements
  from \<open>start\<close> up to, and without, \<open>end\<close>; both are cut at the length of the list.
\<close>

definition slice :: "'a list \<Rightarrow> nat \<Rightarrow> nat \<Rightarrow> 'a list" where
  "slice data start end' = take (end' - start) (drop start data)"

text \<open>
  \<open>TcCom.__splitData\<close>: a \<open>do ... while\<close> loop, so its body runs once before the
  condition is looked at. \<open>splitData_loop\<close> is one run of the body followed by the test.
\<close>

function splitData_loop :: "'a list \<Rightarrow> 'a list list \<Rightarrow> nat \<Rightarrow> nat \<Rightarrow> 'a list list" where
  "splitData_loop data result startIndex endIndex =
     (let endIndex1 = endIndex + 500;
          endIndex2 = (if endIndex1 > length data then length data else endIndex1);
          result1 = result @ [slice data startIndex endIndex2];
          startIndex1 = endIndex2
      in if startIndex1 < length data
         then splitData_loop data result1 startIndex1 endIndex2
         else result1)"
  by pat_completeness auto
termination
  by (relation "measure (\<lambda>(data, result, startIndex, endIndex). length data - endIndex)")
     (auto split: if_splits)

declare splitData_loop.simps [simp del]

definition splitData :: "'a list \<Rightarrow> 'a list list" where
  "splitData data = splitData_loop data [] 0 0"

subsection \<open>The ADS client and the calls made to it\<close>

text \<open>
  The ads-client object behind \<open>TcCom.__ads\<close> is outside the repository. It is a
  parameter: a state \<open>'s\<close> of the controller and, for each method that \<open>TcCom\<close> calls, a
  function from the arguments and the state to the outcome and the next state. A promise
  that rejects is the outcome \<open>None\<close> (or \<open>False\<close> where nothing is returned).
\<close>

record 's ADS =
  readRawMulti :: "TcSymbolPointer list \<Rightarrow> 's \<Rightarrow> TcDataPackage list option \<times> 's"
  writeRawMulti :: "TcDataPackage list \<Rightarrow> 's \<Rightarrow> bool \<times> 's"
  convertToRaw :: "jsval \<Rightarrow> string \<Rightarrow> 's \<Rightarrow> buffer option \<times> 's"
  convertFromRaw :: "buffer \<Rightarrow> string \<Rightarrow> 's \<Rightarrow> jsval option \<times> 's"
  unsubscribeAll :: "'s \<Rightarrow> bool \<times> 's"
  disconnect :: "'s \<Rightarrow> bool \<times> 's"

text \<open>
  What an observer of the run sees, in order: the calls that reach the ADS client, and
  the events that the components emit, each with its name and the class of the event.
\<close>

datatype action =
    ReadRawMulti "TcSymbolPointer list"
  | WriteRawMulti "TcDataPackage list"
  | ConvertToRaw jsval string
  | ConvertFromRaw buffer string
  | UnsubscribeAll
  | Disconnect
  | Emit string string

text \<open>
  \<open>TcCom\<close>: the field \<open>__ads\<close> (\<open>None\<close> for \<open>undefined\<close>: not initialised, or killed)
  and the record of what has been observed so far. Every component reaches the one \<open>TcCom\<close>
  through its context, so the record of emitted events is kept here as well.
\<close>

record 's TcCom =
  ads :: "'s option"
  trace :: "action list"

type_synonym ('s, 'a) io = "'s TcCom \<Rightarrow> (error + 'a) \<times> 's TcCom"

definition emit :: "string \<Rightarrow> string \<Rightarrow> 's TcCom \<Rightarrow> 's TcCom" where
  "emit eventName e com = com\<lparr>trace := trace com @ [Emit eventName e]\<rparr>"

text \<open>\<open>TcCom.toRaw\<close> and \<open>TcCom.fromRaw\<close>.\<close>

definition TcCom_toRaw :: "'s ADS \<Rightarrow> string \<Rightarrow> jsval \<Rightarrow> ('s, buffer) io" where
  "TcCom_toRaw A type' value com =
     (case ads com of
        None \<Rightarrow> (Inl TcComIsInvalidException, com)
      | Some s \<Rightarrow>
          (case convertToRaw A value type' s of
             (r, s') \<Rightarrow>
               ((case r of None \<Rightarrow> Inl TcComToRawException | Some b \<Rightarrow> Inr b),
                com\<lparr>ads := Some s', trace := trace com @ [ConvertToRaw value type']\<rparr>)))"

definition TcCom_fromRaw :: "'s ADS \<Rightarrow> string \<Rightarrow> buffer \<Rightarrow> ('s, jsval) io" where
  "TcCom_fromRaw A type' buf com =
     (case ads com of
        None \<Rightarrow> (Inl TcComIsInvalidException, com)
      | Some s \<Rightarrow>
          (case convertFromRaw A buf type' s of
             (r, s') \<Rightarrow>
               ((case r of None \<Rightarrow> Inl TcComFromRawException | Some v \<Rightarrow> Inr v),
                com\<lparr>ads := Some s', trace := trace com @ [ConvertFromRaw buf type']\<rparr>)))"

text \<open>
  \<open>TcCom.write\<close>: the packages are split, and the groups are written one after the other;
  the first group that the client rejects ends the loop with \<open>TcComDataWriteException\<close>.
\<close>

fun TcCom_write_loop ::
  "'s ADS \<Rightarrow> TcDataPackage list list \<Rightarrow> 's \<Rightarrow> action list \<Rightarrow> (error + unit) \<times> 's \<times> action list"
where
  "TcCom_write_loop A [] s tr = (Inr (), s, tr)"
| "TcCom_write_loop A (g # gs) s tr =
     (case writeRawMulti A g s of
        (ok, s') \<Rightarrow>
          if ok then TcCom_write_loop A gs s' (tr @ [WriteRawMulti g])
          else (Inl TcComDataWriteException, s', tr @ [WriteRawMulti g]))"

definition TcCom_write :: "'s ADS \<Rightarrow> TcDataPackage list \<Rightarrow> ('s, unit) io" where
  "TcCom_write A dataPackages com =
     (case ads com of
        None \<Rightarrow> (Inl TcComIsInvalidException, com)
      | Some s \<Rightarrow>
          (case TcCom_write_loop A (splitData dataPackages) s (trace com) of
             (r, s', tr') \<Rightarrow> (r, com\<lparr>ads := Some s', trace := tr'\<rparr>)))"

text \<open>\<open>TcCom.read\<close>: the same loop, with the responses appended to \<open>result\<close>.\<close>

fun TcCom_read_loop ::
  "'s ADS \<Rightarrow> TcSymbolPointer list list \<Rightarrow> TcDataPackage list \<Rightarrow> 's \<Rightarrow> action list
     \<Rightarrow> (error + TcDataPackage list) \<times> 's \<times> action list"
where
  "TcCom_read_loop A [] result s tr = (Inr result, s, tr)"
| "TcCom_read_loop A (g # gs) result s tr =
     (case readRawMulti A g s of
        (None, s') \<Rightarrow> (Inl TcComDataReadException, s', tr @ [ReadRawMulti g])
      | (Some response, s') \<Rightarrow>
          TcCom_read_loop A gs (result @ response) s' (tr @ [ReadRawMulti g]))"

definition TcCom_read :: "'s ADS \<Rightarrow> TcSymbolPointer list \<Rightarrow> ('s, TcDataPackage list) io" where
  "TcCom_read A pointer com =
     (case ads com of
        None \<Rightarrow> (Inl TcComIsInvalidException, com)
      | Some s \<Rightarrow>
          (case TcCom_read_loop A (splitData pointer) [] s (trace com) of
             (r, s', tr') \<Rightarrow> (r, com\<lparr>ads := Some s', trace := tr'\<rparr>)))"

text \<open>
  \<open>TcCom.disconnect\<close>. With a connection: \<open>unsubscribeAll\<close>, and whatever its outcome,
  \<open>disconnect(true)\<close>, and whatever its outcome, \<open>__ads = undefined\<close> and the event
  \<open>disconnected\<close>. The promise of a \<open>finally\<close> callback that rejects replaces the outcome
  before it, so a failed disconnect is reported before a failed unsubscribe. Without a
  connection only the event is emitted.
\<close>

definition TcCom_disconnect :: "'s ADS \<Rightarrow> ('s, unit) io" where
  "TcCom_disconnect A com =
     (case ads com of
        None \<Rightarrow> (Inr (), emit ''disconnected'' ''TcComDisconnectedEvent'' com)
      | Some s \<Rightarrow>
          (case unsubscribeAll A s of
             (unsubscribed, s1) \<Rightarrow>
               (case disconnect A s1 of
                  (disconnected, s2) \<Rightarrow>
                    ((if \<not> disconnected then Inl TcComDisconnectException
                      else if \<not> unsubscribed then Inl TcComUnsubscribeException
                      else Inr ()),
                     emit ''disconnected'' ''TcComDisconnectedEvent''
                       (com\<lparr>ads := None, trace := trace com @ [UnsubscribeAll, Disconnect]\<rparr>)))))"

section \<open>Strings and numbers of the JavaScript runtime\<close>

text \<open>
  A string of the model is a list of code units below 256, so the strings modelled are
  those of Latin-1. On these \<open>String.prototype.trim\<close> removes the space, the control
  characters 9 to 13 and the no-break space 160, and \<open>toLowerCase\<close> maps \<open>A\<close> to \<open>Z\<close> and
  the capital letters 192 to 222, without the multiplication sign 215, each to the code
  unit 32 above it.
\<close>

definition isWhiteSpace :: "char \<Rightarrow> bool" where
  "isWhiteSpace c =
     (c \<in> set [CHR '' '', CHR 0x09, CHR 0x0A, CHR 0x0B, CHR 0x0C, CHR 0x0D, CHR 0xA0])"

definition trim :: "string \<Rightarrow> string" where
  "trim s = rev (dropWhile isWhiteSpace (rev (dropWhile isWhiteSpace s)))"

definition upperCase :: string where
  "upperCase =
     ''ABCDEFGHIJKLMNOPQRSTUVWXYZ'' @
     [CHR 0xC0, CHR 0xC1, CHR 0xC2, CHR 0xC3, CHR 0xC4, CHR 0xC5, CHR 0xC6, CHR 0xC7,
      CHR 0xC8, CHR 0xC9, CHR 0xCA, CHR 0xCB, CHR 0xCC, CHR 0xCD, CHR 0xCE, CHR 0xCF,
      CHR 0xD0, CHR 0xD1, CHR 0xD2, CHR 0xD3, CHR 0xD4, CHR 0xD5, CHR 0xD6,
      CHR 0xD8, CHR 0xD9, CHR 0xDA, CHR 0xDB, CHR 0xDC, CHR 0xDD, CHR 0xDE]"

definition lowerCase :: string where
  "lowerCase =
     ''abcdefghijklmnopqrstuvwxyz'' @
     [CHR 0xE0, CHR 0xE1, CHR 0xE2, CHR 0xE3, CHR 0xE4, CHR 0xE5, CHR 0xE6, CHR 0xE7,
      CHR 0xE8, CHR 0xE9, CHR 0xEA, CHR 0xEB, CHR 0xEC, CHR 0xED, CHR 0xEE, CHR 0xEF,
      CHR 0xF0, CHR 0xF1, CHR 0xF2, CHR 0xF3, CHR 0xF4, CHR 0xF5, CHR 0xF6,
      CHR 0xF8, CHR 0xF9, CHR 0xFA, CHR 0xFB, CHR 0xFC, CHR 0xFD, CHR 0xFE]"

definition toLowerCase_char :: "char \<Rightarrow> char" where
  "toLowerCase_char c =
     (case map_of (zip upperCase lowerCase) c of
        Some d \<Rightarrow> d
      | None \<Rightarrow> c)"

definition toLowerCase :: "string \<Rightarrow> string" where
  "toLowerCase s = map toLowerCase_char s"

text \<open>
  The relational operators on numbers and bigints compare the mathematical values, and
  every comparison with \<open>NaN\<close> is false. \<open>numeric\<close> is the value compared; the operands
  that the modelled code compares are numbers or bigints, and for any other operand the
  model answers as for \<open>NaN\<close>.
\<close>

fun numeric :: "jsval \<Rightarrow> real option" where
  "numeric (VNum r) = Some r"
| "numeric (VBig i) = Some (of_int i)"
| "numeric _ = None"

definition js_lt :: "jsval \<Rightarrow> jsval \<Rightarrow> bool" where
  "js_lt a b = (case (numeric a, numeric b) of (Some x, Some y) \<Rightarrow> x < y | _ \<Rightarrow> False)"

definition js_gt :: "jsval \<Rightarrow> jsval \<Rightarrow> bool" where
  "js_gt a b = js_lt b a"


text \<open>
  A plain object used as a dictionary: assignment to a key keeps the place of a key that
  is there and appends a new one; \<open>obj_get\<close> is the look-up among the own properties of
  the object, \<open>None\<close> for a key that was never assigned. An object literal also inherits
  the properties of \<open>Object.prototype\<close>: reading one of the names below from an object
  that has no such key of its own finds the inherited value, a function or an object, and
  not \<open>undefined\<close>.
\<close>

definition Object_prototype_names :: "string list" where
  "Object_prototype_names =
     [''constructor'', ''hasOwnProperty'', ''isPrototypeOf'', ''propertyIsEnumerable'',
      ''toLocaleString'', ''toString'', ''valueOf'', ''__proto__'', ''__defineGetter__'',
      ''__defineSetter__'', ''__lookupGetter__'', ''__lookupSetter__'']"

definition obj_set :: "('k \<times> 'v) list \<Rightarrow> 'k \<Rightarrow> 'v \<Rightarrow> ('k \<times> 'v) list" where
  "obj_set obj k v =
     (if k \<in> fst ` set obj then map (\<lambda>(k', v'). if k' = k then (k', v) else (k', v')) obj
      else obj @ [(k, v)])"

definition obj_get :: "('k \<times> 'v) list \<Rightarrow> 'k \<Rightarrow> 'v option" where
  "obj_get obj k = map_of obj k"

section \<open>tc-type.ts: the type nodes\<close>

text \<open>The constants \<open>ADST\<close> of tc-com.ts.\<close>

definition ADST_VOID :: int where "ADST_VOID = 0"
definition ADST_INT8 :: int where "ADST_INT8 = 16"
definition ADST_UINT8 :: int where "ADST_UINT8 = 17"
definition ADST_INT16 :: int where "ADST_INT16 = 2"
definition ADST_UINT16 :: int where "ADST_UINT16 = 18"
definition ADST_INT32 :: int where "ADST_INT32 = 3"
definition ADST_UINT32 :: int where "ADST_UINT32 = 19"
definition ADST_INT64 :: int where "ADST_INT64 = 20"
definition ADST_UINT64 :: int where "ADST_UINT64 = 21"
definition ADST_REAL32 :: int where "ADST_REAL32 = 4"
definition ADST_REAL64 :: int where "ADST_REAL64 = 5"
definition ADST_BIGTYPE :: int where "ADST_BIGTYPE = 65"
definition ADST_STRING :: int where "ADST_STRING = 30"
definition ADST_WSTRING :: int where "ADST_WSTRING = 31"
definition ADST_REAL80 :: int where "ADST_REAL80 = 32"
definition ADST_BIT :: int where "ADST_BIT = 33"

lemmas ADST_defs =
  ADST_VOID_def ADST_INT8_def ADST_UINT8_def ADST_INT16_def ADST_UINT16_def ADST_INT32_def
  ADST_UINT32_def ADST_INT64_def ADST_UINT64_def ADST_REAL32_def ADST_REAL64_def
  ADST_BIGTYPE_def ADST_STRING_def ADST_WSTRING_def ADST_REAL80_def ADST_BIT_def

text \<open>
  \<open>TcTypeBase\<close>, the mutator of a type (attributes and offset), and \<open>TcTypeInfo\<close>, the raw
  descriptor of a type, with the fields that the type nodes read. An optional field is an
  \<open>option\<close>.
\<close>

record TcTypeBase =
  attributes :: "(string \<times> string) list option"
  adsDataType :: int
  offset :: "int option"
  name :: string
  size' :: int

record TcTypeInfo = TcTypeBase +
  arrayData :: "(int \<times> int) list"
  enumInfo :: "(string \<times> buffer) list option"
  rpcMethods :: "string list"

text \<open>
  The private fields of the class \<open>TcType\<close>: \<open>t_name\<close> is \<open>__name\<close>, and so on. The
  context and the debugger are left out.
\<close>

record TcTypeFields =
  t_name :: string
  t_adst :: int
  t_readOnly :: bool
  t_ignored :: bool
  t_default :: jsval
  t_offset :: int
  t_size :: int
  t_defaultBuffer :: "buffer option"
  t_onSet :: "string option"
  t_onGet :: "string option"
  t_onClear :: "string option"
  t_onChange :: "string option"

text \<open>
  The six classes of type nodes, each with the fields of \<open>TcType\<close> and its own:
  \<open>__upperBorder\<close> and \<open>__lowerBorder\<close>; \<open>__length\<close>; \<open>__enumFields\<close> and \<open>__enumBuffers\<close>;
  \<open>__children\<close> and \<open>__rpcMethods\<close>; \<open>__child\<close> and \<open>__dimensions\<close> (pairs of
  \<open>startIndex\<close> and \<open>length\<close>).
\<close>

datatype TcType =
    TcBooleanType TcTypeFields
  | TcNumericType TcTypeFields "jsval option" "jsval option"
  | TcStringType TcTypeFields int
  | TcEnumType TcTypeFields "string list" "(string \<times> buffer) list"
  | TcStructType TcTypeFields "(string \<times> TcType) list" "string list"
  | TcArrayType TcTypeFields TcType "(int \<times> int) list"

fun base :: "TcType \<Rightarrow> TcTypeFields" where
  "base (TcBooleanType f) = f"
| "base (TcNumericType f u l) = f"
| "base (TcStringType f n) = f"
| "base (TcEnumType f fs bs) = f"
| "base (TcStructType f cs ms) = f"
| "base (TcArrayType f c ds) = f"

fun map_base :: "(TcTypeFields \<Rightarrow> TcTypeFields) \<Rightarrow> TcType \<Rightarrow> TcType" where
  "map_base g (TcBooleanType f) = TcBooleanType (g f)"
| "map_base g (TcNumericType f u l) = TcNumericType (g f) u l"
| "map_base g (TcStringType f n) = TcStringType (g f) n"
| "map_base g (TcEnumType f fs bs) = TcEnumType (g f) fs bs"
| "map_base g (TcStructType f cs ms) = TcStructType (g f) cs ms"
| "map_base g (TcArrayType f c ds) = TcArrayType (g f) c ds"

text \<open>
  \<open>TcNumericType.ranges\<close>. The bounds of the 64-bit kinds are written in the source as
  \<open>BigInt\<close> of a number literal, so they are the bigints of the nearest doubles:
  \<open>BigInt(9223372036854775807)\<close> is \<open>2 ^ 63\<close> and \<open>BigInt(18446744073709551615)\<close> is
  \<open>2 ^ 64\<close>. The bounds of the two floating kinds are the doubles that the literals
  \<open>3.402823e+38\<close> and \<open>1.7976931348623158e+308\<close> denote: \<open>2251799370839625 * 2 ^ 77\<close>
  and \<open>(2 ^ 53 - 1) * 2 ^ 971\<close>.
\<close>

definition ranges :: "int \<Rightarrow> (jsval \<times> jsval) option" where
  "ranges adst =
     (if adst = ADST_INT8 then Some (VNum (-128), VNum 127)
      else if adst = ADST_UINT8 then Some (VNum 0, VNum 255)
      else if adst = ADST_UINT16 then Some (VNum 0, VNum 65535)
      else if adst = ADST_INT16 then Some (VNum (-32768), VNum 32767)
      else if adst = ADST_INT32 then Some (VNum (-2147483648), VNum 2147483647)
      else if adst = ADST_UINT32 then Some (VNum 0, VNum 4294967295)
      else if adst = ADST_INT64 then Some (VBig (- (2 ^ 63)), VBig (2 ^ 63))
      else if adst = ADST_UINT64 then Some (VBig 0, VBig (2 ^ 64))
      else if adst = ADST_REAL32
        then Some (VNum (- (2251799370839625 * 2 ^ 77)), VNum (2251799370839625 * 2 ^ 77))
      else if adst = ADST_REAL64
        then Some (VNum (- (9007199254740991 * 2 ^ 971)), VNum (9007199254740991 * 2 ^ 971))
      else None)"

text \<open>
  The getters. \<open>defaultValue\<close> is overridden by the boolean, numeric and string classes;
  \<open>upperBorder\<close> and \<open>lowerBorder\<close> read the table, and reading \<open>max\<close> or \<open>min\<close> of a
  missing row is a \<open>TypeError\<close>.
\<close>

definition is64 :: "int \<Rightarrow> bool" where
  "is64 adst = (adst = ADST_INT64 \<or> adst = ADST_UINT64)"

fun defaultValue :: "TcType \<Rightarrow> jsval" where
  "defaultValue (TcBooleanType f) =
     (if t_default f = VUndefined then VBool False else t_default f)"
| "defaultValue (TcNumericType f u l) =
     (if t_default f = VUndefined
      then (if is64 (t_adst f) then VBig 0 else VNum 0)
      else t_default f)"
| "defaultValue (TcStringType f n) =
     (if t_default f = VUndefined then VStr [] else t_default f)"
| "defaultValue t = t_default (base t)"

definition upperBorder :: "TcTypeFields \<Rightarrow> jsval option \<Rightarrow> error + jsval" where
  "upperBorder f u =
     (case u of
        None \<Rightarrow> (case ranges (t_adst f) of None \<Rightarrow> Inl JsTypeError | Some (mn, mx) \<Rightarrow> Inr mx)
      | Some v \<Rightarrow> Inr v)"

definition lowerBorder :: "TcTypeFields \<Rightarrow> jsval option \<Rightarrow> error + jsval" where
  "lowerBorder f l =
     (case l of
        None \<Rightarrow> (case ranges (t_adst f) of None \<Rightarrow> Inl JsTypeError | Some (mn, mx) \<Rightarrow> Inr mn)
      | Some v \<Rightarrow> Inr v)"

text \<open>The getters of the event names: \<open>this.__onSet || 'set'\<close>.\<close>

definition eventName :: "string option \<Rightarrow> string \<Rightarrow> string" where
  "eventName a d = (case a of None \<Rightarrow> d | Some s \<Rightarrow> if s = [] then d else s)"

text \<open>
  \<open>TcType.__getParameter\<close>, the part that every class runs first: \<open>readonly\<close>,
  \<open>ignored\<close> and the four event names.
\<close>

definition TcType_getParameter :: "string \<Rightarrow> string \<Rightarrow> TcTypeFields \<Rightarrow> TcTypeFields" where
  "TcType_getParameter name' value f =
     (let nameFormatted = toLowerCase (trim name') in
      if nameFormatted = ''readonly'' then f\<lparr>t_readOnly := True\<rparr>
      else if nameFormatted = ''ignored'' then f\<lparr>t_ignored := True\<rparr>
      else if nameFormatted = ''onset'' then f\<lparr>t_onSet := Some value\<rparr>
      else if nameFormatted = ''onget'' then f\<lparr>t_onGet := Some value\<rparr>
      else if nameFormatted = ''onclear'' then f\<lparr>t_onClear := Some value\<rparr>
      else if nameFormatted = ''onchange'' then f\<lparr>t_onChange := Some value\<rparr>
      else f)"

text \<open>
  \<open>__getParameter\<close> as each class overrides it. The builtins \<open>parseFloat\<close> and \<open>BigInt\<close>
  are parameters: \<open>parseFloat\<close> gives a number, or \<open>NaN\<close>, here \<open>None\<close>; \<open>BigInt\<close> gives
  a bigint, or throws a \<open>SyntaxError\<close> for a string that is no integer, here \<open>None\<close> and
  then \<open>JsError\<close>. The border is set first and then read back through its getter for
  the default.
\<close>

definition parseBorder ::
  "(string \<Rightarrow> real option) \<Rightarrow> (string \<Rightarrow> int option) \<Rightarrow> int \<Rightarrow> string \<Rightarrow> error + jsval"
where
  "parseBorder parseFloat BigInt adst value =
     (if is64 adst
      then (case BigInt value of None \<Rightarrow> Inl (JsError ''SyntaxError'') | Some i \<Rightarrow> Inr (VBig i))
      else (case parseFloat value of None \<Rightarrow> Inr VNaN | Some r \<Rightarrow> Inr (VNum r)))"

fun getParameter ::
  "(string \<Rightarrow> real option) \<Rightarrow> (string \<Rightarrow> int option) \<Rightarrow> string \<Rightarrow> string \<Rightarrow> TcType \<Rightarrow> error + TcType"
where
  "getParameter parseFloat BigInt name' value (TcBooleanType f) =
     (let f1 = TcType_getParameter name' value f;
          nameFormatted = toLowerCase (trim name')
      in if nameFormatted = ''default'' \<and> toLowerCase (trim value) = ''true''
         then Inr (TcBooleanType (f1\<lparr>t_default := VBool True\<rparr>))
         else Inr (TcBooleanType f1))"
| "getParameter parseFloat BigInt name' value (TcNumericType f u l) =
     (let f1 = TcType_getParameter name' value f;
          nameFormatted = toLowerCase (trim name')
      in if nameFormatted = ''lowerborder''
         then (case parseBorder parseFloat BigInt (t_adst f1) value of
                 Inl e \<Rightarrow> Inl e
               | Inr b \<Rightarrow>
                   if t_default f1 = VUndefined
                   then Inr (TcNumericType (f1\<lparr>t_default := b\<rparr>) u (Some b))
                   else Inr (TcNumericType f1 u (Some b)))
         else if nameFormatted = ''upperborder''
         then (case parseBorder parseFloat BigInt (t_adst f1) value of
                 Inl e \<Rightarrow> Inl e
               | Inr b \<Rightarrow> Inr (TcNumericType f1 (Some b) l))
         else if nameFormatted = ''default''
         then (case parseBorder parseFloat BigInt (t_adst f1) value of
                 Inl e \<Rightarrow> Inl e
               | Inr b \<Rightarrow> Inr (TcNumericType (f1\<lparr>t_default := b\<rparr>) u l))
         else Inr (TcNumericType f1 u l))"
| "getParameter parseFloat BigInt name' value (TcStringType f n) =
     (let f1 = TcType_getParameter name' value f;
          nameFormatted = toLowerCase (trim name')
      in if nameFormatted = ''default''
         then Inr (TcStringType (f1\<lparr>t_default := VBool True\<rparr>) n)
         else Inr (TcStringType f1 n))"
| "getParameter parseFloat BigInt name' value (TcEnumType f fs bs) =
     (let f1 = TcType_getParameter name' value f;
          nameFormatted = toLowerCase (trim name')
      in if nameFormatted = ''default''
         then Inr (TcEnumType (f1\<lparr>t_default := VStr value\<rparr>) fs bs)
         else Inr (TcEnumType f1 fs bs))"
| "getParameter parseFloat BigInt name' value t =
     Inr (map_base (TcType_getParameter name' value) t)"

text \<open>
  \<open>TcType.mutate\<close>: every attribute of the mutator in turn, then
  \<open>this.offset = mutator.offset || this.offset\<close>. An exception of \<open>__getParameter\<close> ends it.
\<close>

fun mutate_attributes ::
  "(string \<Rightarrow> real option) \<Rightarrow> (string \<Rightarrow> int option) \<Rightarrow> (string \<times> string) list \<Rightarrow> TcType \<Rightarrow> error + TcType"
where
  "mutate_attributes parseFloat BigInt [] t = Inr t"
| "mutate_attributes parseFloat BigInt ((name', value) # as) t =
     (case getParameter parseFloat BigInt name' value t of
        Inl e \<Rightarrow> Inl e
      | Inr t1 \<Rightarrow> mutate_attributes parseFloat BigInt as t1)"

definition or_number :: "int option \<Rightarrow> int \<Rightarrow> int" where
  "or_number a b = (case a of None \<Rightarrow> b | Some x \<Rightarrow> if x = 0 then b else x)"

definition mutate ::
  "(string \<Rightarrow> real option) \<Rightarrow> (string \<Rightarrow> int option) \<Rightarrow> 'a TcTypeBase_scheme \<Rightarrow> TcType \<Rightarrow> error + TcType"
where
  "mutate parseFloat BigInt mutator t =
     (case mutate_attributes parseFloat BigInt
             (case attributes mutator of None \<Rightarrow> [] | Some as \<Rightarrow> as) t of
        Inl e \<Rightarrow> Inl e
      | Inr t1 \<Rightarrow>
          Inr (map_base (\<lambda>f. f\<lparr>t_offset := or_number (offset mutator) (t_offset f)\<rparr>) t1))"

subsection \<open>Constructing, creating and cloning type nodes\<close>

text \<open>
  The constructor of \<open>TcType\<close> from a raw descriptor sets the fields and then calls
  \<open>mutate\<close>, which runs the \<open>__getParameter\<close> of the class under construction. The
  fields that a class declares with an initialiser are set after that; \<open>mutate\<close> neither
  reads nor writes them. The two borders of the numeric class are declared without an
  initialiser, and the declaration is taken to compile to no assignment, so that they
  keep what \<open>mutate\<close> stored in them.
\<close>

definition TcType_fields_of_info :: "'a TcTypeInfo_scheme \<Rightarrow> TcTypeFields" where
  "TcType_fields_of_info typeData =
     \<lparr>t_name = name typeData, t_adst = adsDataType typeData, t_readOnly = False,
      t_ignored = False, t_default = VUndefined, t_offset = or_number (offset typeData) 0,
      t_size = size' typeData, t_defaultBuffer = None, t_onSet = None, t_onGet = None,
      t_onClear = None, t_onChange = None\<rparr>"

definition TcBooleanType_new ::
  "(string \<Rightarrow> real option) \<Rightarrow> (string \<Rightarrow> int option) \<Rightarrow> 'a TcTypeInfo_scheme \<Rightarrow> error + TcType"
where
  "TcBooleanType_new parseFloat BigInt typeData =
     mutate parseFloat BigInt typeData (TcBooleanType (TcType_fields_of_info typeData))"

definition TcNumericType_new ::
  "(string \<Rightarrow> real option) \<Rightarrow> (string \<Rightarrow> int option) \<Rightarrow> 'a TcTypeInfo_scheme \<Rightarrow> error + TcType"
where
  "TcNumericType_new parseFloat BigInt typeData =
     mutate parseFloat BigInt typeData (TcNumericType (TcType_fields_of_info typeData) None None)"

definition TcStringType_new ::
  "(string \<Rightarrow> real option) \<Rightarrow> (string \<Rightarrow> int option) \<Rightarrow> 'a TcTypeInfo_scheme \<Rightarrow> error + TcType"
where
  "TcStringType_new parseFloat BigInt typeData =
     mutate parseFloat BigInt typeData
       (TcStringType (TcType_fields_of_info typeData) (size' typeData - 1))"

text \<open>
  The values that count as false in a condition: \<open>undefined\<close>, \<open>null\<close>, \<open>false\<close>, zero,
  \<open>NaN\<close> and the empty string.
\<close>

fun js_falsy :: "jsval \<Rightarrow> bool" where
  "js_falsy VUndefined = True"
| "js_falsy VNull = True"
| "js_falsy (VBool b) = (\<not> b)"
| "js_falsy (VNum r) = (r = 0)"
| "js_falsy VNaN = True"
| "js_falsy (VBig i) = (i = 0)"
| "js_falsy (VStr s) = (s = [])"
| "js_falsy (VObj es) = False"
| "js_falsy (VArr vs) = False"

text \<open>
  The constructor of \<open>TcEnumType\<close> runs over \<open>enumInfo\<close> after \<open>mutate\<close>: each field
  is stored under its qualified name, and the first one becomes the default when no
  default is there yet.
\<close>

fun TcEnumType_addField :: "string \<Rightarrow> TcType \<Rightarrow> string \<times> buffer \<Rightarrow> TcType" where
  "TcEnumType_addField typeName (TcEnumType f fs bs) (fieldName, value) =
     (let fullName = typeName @ ''.'' @ fieldName;
          fs1 = fs @ [fullName];
          bs1 = obj_set bs fullName value
      in if js_falsy (defaultValue (TcEnumType f fs1 bs1))
         then TcEnumType (f\<lparr>t_default := VStr fieldName, t_defaultBuffer := Some value\<rparr>)
                fs1 bs1
         else TcEnumType f fs1 bs1)"
| "TcEnumType_addField typeName t fld = t"

definition TcEnumType_new ::
  "(string \<Rightarrow> real option) \<Rightarrow> (string \<Rightarrow> int option) \<Rightarrow> 'a TcTypeInfo_scheme \<Rightarrow> error + TcType"
where
  "TcEnumType_new parseFloat BigInt typeData =
     (case mutate parseFloat BigInt typeData (TcEnumType (TcType_fields_of_info typeData) [] []) of
        Inl e \<Rightarrow> Inl e
      | Inr t \<Rightarrow>
          Inr (foldl (TcEnumType_addField (name typeData)) t
                 (case enumInfo typeData of None \<Rightarrow> [] | Some es \<Rightarrow> es)))"

definition TcStructType_new ::
  "(string \<Rightarrow> real option) \<Rightarrow> (string \<Rightarrow> int option) \<Rightarrow> 'a TcTypeInfo_scheme
     \<Rightarrow> (string \<times> TcType) list \<Rightarrow> error + TcType"
where
  "TcStructType_new parseFloat BigInt typeData children =
     mutate parseFloat BigInt typeData
       (TcStructType (TcType_fields_of_info typeData) children (rpcMethods typeData))"

definition TcArrayType_new ::
  "(string \<Rightarrow> real option) \<Rightarrow> (string \<Rightarrow> int option) \<Rightarrow> 'a TcTypeInfo_scheme \<Rightarrow> TcType
     \<Rightarrow> error + TcType"
where
  "TcArrayType_new parseFloat BigInt typeData child =
     mutate parseFloat BigInt typeData
       (TcArrayType (TcType_fields_of_info typeData) child (arrayData typeData))"





text \<open>
  The static \<open>create\<close> of the boolean, numeric and string classes encodes the default of
  a type that is not ignored; that of the other classes only drops an ignored type.
\<close>

definition create_encoded :: "'s ADS \<Rightarrow> error + TcType \<Rightarrow> ('s, TcType option) io" where
  "create_encoded A made com =
     (case made of
        Inl e \<Rightarrow> (Inl e, com)
      | Inr type' \<Rightarrow>
          if \<not> t_ignored (base type')
          then (case TcCom_toRaw A (t_name (base type')) (defaultValue type') com of
                  (Inl e, com1) \<Rightarrow> (Inl e, com1)
                | (Inr b, com1) \<Rightarrow>
                    (Inr (Some (map_base (\<lambda>f. f\<lparr>t_defaultBuffer := Some b\<rparr>) type')), com1))
          else (Inr None, com))"

definition create_plain :: "error + TcType \<Rightarrow> ('s, TcType option) io" where
  "create_plain made com =
     (case made of
        Inl e \<Rightarrow> (Inl e, com)
      | Inr type' \<Rightarrow> if \<not> t_ignored (base type') then (Inr (Some type'), com) else (Inr None, com))"

definition TcBooleanType_create ::
  "'s ADS \<Rightarrow> (string \<Rightarrow> real option) \<Rightarrow> (string \<Rightarrow> int option) \<Rightarrow> 'a TcTypeInfo_scheme
     \<Rightarrow> ('s, TcType option) io"
where
  "TcBooleanType_create A parseFloat BigInt typeData =
     create_encoded A (TcBooleanType_new parseFloat BigInt typeData)"

definition TcNumericType_create ::
  "'s ADS \<Rightarrow> (string \<Rightarrow> real option) \<Rightarrow> (string \<Rightarrow> int option) \<Rightarrow> 'a TcTypeInfo_scheme
     \<Rightarrow> ('s, TcType option) io"
where
  "TcNumericType_create A parseFloat BigInt typeData =
     create_encoded A (TcNumericType_new parseFloat BigInt typeData)"

definition TcStringType_create ::
  "'s ADS \<Rightarrow> (string \<Rightarrow> real option) \<Rightarrow> (string \<Rightarrow> int option) \<Rightarrow> 'a TcTypeInfo_scheme
     \<Rightarrow> ('s, TcType option) io"
where
  "TcStringType_create A parseFloat BigInt typeData =
     create_encoded A (TcStringType_new parseFloat BigInt typeData)"

definition TcEnumType_create ::
  "(string \<Rightarrow> real option) \<Rightarrow> (string \<Rightarrow> int option) \<Rightarrow> 'a TcTypeInfo_scheme
     \<Rightarrow> ('s, TcType option) io"
where
  "TcEnumType_create parseFloat BigInt typeData =
     create_plain (TcEnumType_new parseFloat BigInt typeData)"

definition TcStructType_create ::
  "(string \<Rightarrow> real option) \<Rightarrow> (string \<Rightarrow> int option) \<Rightarrow> 'a TcTypeInfo_scheme
     \<Rightarrow> (string \<times> TcType) list \<Rightarrow> ('s, TcType option) io"
where
  "TcStructType_create parseFloat BigInt typeData children =
     create_plain (TcStructType_new parseFloat BigInt typeData children)"

definition TcArrayType_create ::
  "(string \<Rightarrow> real option) \<Rightarrow> (string \<Rightarrow> int option) \<Rightarrow> 'a TcTypeInfo_scheme \<Rightarrow> TcType
     \<Rightarrow> ('s, TcType option) io"
where
  "TcArrayType_create parseFloat BigInt typeData child =
     create_plain (TcArrayType_new parseFloat BigInt typeData child)"

section \<open>tc-binding.ts and tc-symbol.ts: bindings and symbols\<close>

text \<open>
  A symbol owns exactly one binding, and the binding refers back to its symbol, so a node
  of the symbol graph is modelled with its binding: \<open>sym_path\<close> and \<open>sym_readOnly\<close> are
  the fields \<open>__path\<close> and \<open>__readOnly\<close> of \<open>TcSymbol\<close> (the getter \<open>readOnly\<close> of a binding
  reads the latter), \<open>sym_binding\<close> holds the fields of \<open>TcBinding\<close>, \<open>sym_kind\<close> is the
  class of the binding with the fields that the class adds, and \<open>sym_children\<close> is the list
  \<open>__children\<close> of the symbol, in the order in which the children were added. Event names,
  listeners and subscriptions are left out.
\<close>

record TcBinding =
  b_isValid :: bool
  b_indexGroup :: int
  b_indexOffset :: int
  b_size :: int
  b_readPackages :: "TcSymbolPointer list"
  b_clearPackages :: "TcDataPackage list"

text \<open>
  The classes of bindings. A simple binding holds \<open>__type\<close> and \<open>__defaultValue\<close>; the
  numeric one adds \<open>__adst\<close>, \<open>__upperBorder\<close> and \<open>__lowerBorder\<close>, the string one
  \<open>__length\<close>, the enum one \<open>__fields\<close> and \<open>__buffers\<close>; the array binding holds
  \<open>__startIndex\<close> and \<open>__length\<close>.
\<close>

datatype TcBindingKind =
    TcBooleanBinding string "buffer option"
  | TcNumericBinding string "buffer option" int jsval jsval
  | TcStringBinding string "buffer option" int
  | TcEnumBinding string "buffer option" "string list" "(string \<times> buffer) list"
  | TcStructureBinding
  | TcArrayBinding int int
  | TcNamespaceBinding

text \<open>The key of a child: the name of a member, or the index of an array element.\<close>

datatype key = Name string | Index int

datatype TcSymbol =
  TcSymbol (sym_path: string) (sym_readOnly: bool) (sym_kind: TcBindingKind)
    (sym_binding: TcBinding) (sym_children: "(key \<times> TcSymbol) list")

text \<open>
  \<open>sym_children\<close> is the array \<open>__children\<close> of the symbol. \<open>__childrenBindings\<close> of its
  binding is the object to which the children that reached the binding were assigned
  under their keys. A child whose key is taken does not reach the binding: \<open>__addChild\<close>
  of the symbol pushes it to \<open>__children\<close> and then throws, as shown below. So the
  object holds, for each key, the first child of \<open>__children\<close> under that key.
\<close>

definition childrenBindings :: "TcSymbol \<Rightarrow> (key \<times> TcSymbol) list" where
  "childrenBindings s =
     foldl (\<lambda>obj (k, c). if map_of obj k = None then obj @ [(k, c)] else obj) []
       (sym_children s)"

subsection \<open>Constructors of the bindings\<close>

text \<open>
  \<open>TcBinding\<close> starts valid, at group, offset and size zero; \<open>TcSymbolBinding\<close> takes them
  from the pointer; \<open>TcSimpleBinding\<close> adds its one read pointer, and its one clear
  package when the type has a default buffer.
\<close>

definition TcBinding_new :: TcBinding where
  "TcBinding_new =
     \<lparr>b_isValid = True, b_indexGroup = 0, b_indexOffset = 0, b_size = 0,
      b_readPackages = [], b_clearPackages = []\<rparr>"

definition TcSymbolBinding_new :: "TcSymbolPointer \<Rightarrow> TcBinding" where
  "TcSymbolBinding_new pointer =
     TcBinding_new\<lparr>b_indexGroup := ptr_indexGroup pointer,
                   b_indexOffset := ptr_indexOffset pointer,
                   b_size := ptr_size pointer\<rparr>"

definition TcSimpleBinding_new :: "TcSymbolPointer \<Rightarrow> TcTypeFields \<Rightarrow> TcBinding" where
  "TcSimpleBinding_new pointer parameters =
     (let b = TcSymbolBinding_new pointer;
          b1 = b\<lparr>b_readPackages := b_readPackages b @
                  [TcSymbolPointer (ptr_indexGroup pointer) (ptr_indexOffset pointer) (ptr_size pointer)]\<rparr>
      in case t_defaultBuffer parameters of
           None \<Rightarrow> b1
         | Some d \<Rightarrow>
             b1\<lparr>b_clearPackages := b_clearPackages b1 @
                  [TcDataPackage (b_indexGroup b1) (b_indexOffset b1) d]\<rparr>)"

subsection \<open>Adding a child\<close>

text \<open>
  \<open>__addChild\<close> of a structure or array symbol pushes the child to \<open>__children\<close>,
  defines on the symbol a property with a getter under the key of the child, and hands
  the child to \<open>TcComplexBinding.__addChild\<close>, which stores it and appends its clear
  packages and read pointers. \<open>Object.defineProperty\<close> throws a \<open>TypeError\<close> when
  a property was defined under the key before, since such a property cannot be defined
  anew. The names of the members are taken to differ from the names of the fields that
  the symbol itself holds.
\<close>

definition TcComplexBinding_addChild :: "TcBinding \<Rightarrow> TcBinding \<Rightarrow> TcBinding" where
  "TcComplexBinding_addChild b child =
     b\<lparr>b_clearPackages := b_clearPackages b @ b_clearPackages child,
       b_readPackages := b_readPackages b @ b_readPackages child\<rparr>"

definition TcSymbol_addChild :: "TcSymbol \<Rightarrow> key \<times> TcSymbol \<Rightarrow> error + TcSymbol" where
  "TcSymbol_addChild this child =
     (if fst child \<in> set (map fst (sym_children this)) then Inl JsTypeError
      else Inr (TcSymbol (sym_path this) (sym_readOnly this) (sym_kind this)
                  (TcComplexBinding_addChild (sym_binding this) (sym_binding (snd child)))
                  (sym_children this @ [child])))"

text \<open>
  \<open>TcNamespaceBinding.__addChild\<close>: the same, and then the group, the offset and the size
  of the namespace are adjusted. Zero stands for a group or an offset that is not yet set.
  The exception for a child of another group is thrown after the child has been stored.
\<close>

definition TcNamespaceBinding_addChild :: "TcBinding \<Rightarrow> TcBinding \<Rightarrow> (error + unit) \<times> TcBinding" where
  "TcNamespaceBinding_addChild b child =
     (let b1 = TcComplexBinding_addChild b child in
      if b_indexGroup b1 \<noteq> 0 \<and> b_indexGroup b1 \<noteq> b_indexGroup child
      then (Inl (JsError ''IndexGroup of Namespace is invalid. Unsupported situation''), b1)
      else
        (let b2 = (if b_indexGroup b1 = 0 then b1\<lparr>b_indexGroup := b_indexGroup child\<rparr> else b1) in
         if b_indexOffset b2 = 0
         then (Inr (), b2\<lparr>b_indexOffset := b_indexOffset child, b_size := b_size child\<rparr>)
         else if b_indexOffset b2 + b_size b2 < b_indexOffset child
         then (Inr (), b2\<lparr>b_size := b_indexOffset child - b_indexOffset b2 + b_size child\<rparr>)
         else if b_indexOffset b2 > b_indexOffset child
         then (Inr (), b2\<lparr>b_size := b_indexOffset b2 - b_indexOffset child + b_size b2,
                           b_indexOffset := b_indexOffset child\<rparr>)
         else (Inr (), b2)))"

text \<open>
  \<open>__addChild\<close> of a namespace symbol, the same three steps. The namespace outlives an
  exception: after that of \<open>Object.defineProperty\<close> the child is in \<open>__children\<close> and
  the binding is as it was.
\<close>

definition TcNamespaceSymbol_addChild :: "TcSymbol \<Rightarrow> key \<times> TcSymbol \<Rightarrow> (error + unit) \<times> TcSymbol" where
  "TcNamespaceSymbol_addChild namespace child =
     (if fst child \<in> set (map fst (sym_children namespace))
      then (Inl JsTypeError,
            TcSymbol (sym_path namespace) (sym_readOnly namespace) (sym_kind namespace)
              (sym_binding namespace) (sym_children namespace @ [child]))
      else
        (case TcNamespaceBinding_addChild (sym_binding namespace) (sym_binding (snd child)) of
           (r, b) \<Rightarrow>
             (r, TcSymbol (sym_path namespace) (sym_readOnly namespace) (sym_kind namespace) b
                   (sym_children namespace @ [child]))))"

definition TcNamespaceSymbol_new :: "string \<Rightarrow> TcSymbol" where
  "TcNamespaceSymbol_new path = TcSymbol path False TcNamespaceBinding TcBinding_new []"

text \<open>Children added one after the other; the first exception ends the loop.\<close>

fun TcNamespaceSymbol_addChildren :: "TcSymbol \<Rightarrow> (key \<times> TcSymbol) list \<Rightarrow> (error + unit) \<times> TcSymbol" where
  "TcNamespaceSymbol_addChildren namespace [] = (Inr (), namespace)"
| "TcNamespaceSymbol_addChildren namespace (child # rest) =
     (case TcNamespaceSymbol_addChild namespace child of
        (Inl e, namespace1) \<Rightarrow> (Inl e, namespace1)
      | (Inr u, namespace1) \<Rightarrow> TcNamespaceSymbol_addChildren namespace1 rest)"

subsection \<open>Instantiating a symbol from a type\<close>

text \<open>A number in a template literal: the decimal digits of an integer.\<close>

fun show_nat :: "nat \<Rightarrow> string" where
  "show_nat n =
     (if n < 10 then [char_of (48 + n)] else show_nat (n div 10) @ [char_of (48 + n mod 10)])"

declare show_nat.simps [simp del]

definition show_int :: "int \<Rightarrow> string" where
  "show_int i = (if i < 0 then CHR ''-'' # show_nat (nat (- i)) else show_nat (nat i))"

text \<open>
  The children made by a loop of a constructor are added in order; a child whose
  construction or addition throws ends the construction of the parent.
\<close>

fun TcSymbol_addChildren :: "TcSymbol \<Rightarrow> (key \<times> (error + TcSymbol)) list \<Rightarrow> error + TcSymbol" where
  "TcSymbol_addChildren this [] = Inr this"
| "TcSymbol_addChildren this ((k, Inl e) # rest) = Inl e"
| "TcSymbol_addChildren this ((k, Inr child) # rest) =
     (case TcSymbol_addChild this (k, child) of
        Inl e \<Rightarrow> Inl e
      | Inr this1 \<Rightarrow> TcSymbol_addChildren this1 rest)"

text \<open>
  \<open>__addMethod\<close> of a structure symbol defines a property with a getter under the name
  of each RPC method, after the children; the method itself is not modelled. A name
  that a child or an earlier method has taken makes \<open>Object.defineProperty\<close> throw.
\<close>

fun TcSymbol_addMethods :: "key list \<Rightarrow> string list \<Rightarrow> error option" where
  "TcSymbol_addMethods defined [] = None"
| "TcSymbol_addMethods defined (meth # rest) =
     (if Name meth \<in> set defined then Some JsTypeError
      else TcSymbol_addMethods (defined @ [Name meth]) rest)"

text \<open>
  \<open>instance\<close> of each class of types (here \<open>instance'\<close>) builds the symbol of the same class, which builds
  its binding and, for a structure or an array, its children. The parent is needed for its
  \<open>$readOnly\<close> only, which is passed as \<open>parentReadOnly\<close>. The symbol of a numeric type
  reads both borders through the getters of the type. An array symbol at \<open>depth\<close> reads
  \<open>dimensions[depth]\<close>; at the last dimension its children are the elements, before
  that they are array symbols of the same type one level deeper, each over
  \<open>size / length\<close> bytes, a division that the model takes as exact.
\<close>

lemma size_TcType_member:
  "child \<in> set cs \<Longrightarrow> size (snd child) < size (TcStructType f cs ms)"
  by (induction cs) (auto simp: less_Suc_eq_le)

function instance' :: "TcType \<Rightarrow> string \<Rightarrow> bool \<Rightarrow> TcSymbolPointer \<Rightarrow> error + TcSymbol"
  and TcArraySymbol_new ::
    "string \<Rightarrow> bool \<Rightarrow> TcSymbolPointer \<Rightarrow> TcTypeFields \<Rightarrow> TcType \<Rightarrow> (int \<times> int) list \<Rightarrow> nat
       \<Rightarrow> error + TcSymbol"
where
  "instance' (TcBooleanType f) path parentReadOnly pointer =
     Inr (TcSymbol path (parentReadOnly \<or> t_readOnly f)
            (TcBooleanBinding (t_name f) (t_defaultBuffer f)) (TcSimpleBinding_new pointer f) [])"
| "instance' (TcNumericType f u l) path parentReadOnly pointer =
     (case upperBorder f u of
        Inl e \<Rightarrow> Inl e
      | Inr ub \<Rightarrow>
          (case lowerBorder f l of
             Inl e \<Rightarrow> Inl e
           | Inr lb \<Rightarrow>
               Inr (TcSymbol path (parentReadOnly \<or> t_readOnly f)
                      (TcNumericBinding (t_name f) (t_defaultBuffer f) (t_adst f) ub lb)
                      (TcSimpleBinding_new pointer f) [])))"
| "instance' (TcStringType f n) path parentReadOnly pointer =
     Inr (TcSymbol path (parentReadOnly \<or> t_readOnly f)
            (TcStringBinding (t_name f) (t_defaultBuffer f) n) (TcSimpleBinding_new pointer f) [])"
| "instance' (TcEnumType f fs bs) path parentReadOnly pointer =
     Inr (TcSymbol path (parentReadOnly \<or> t_readOnly f)
            (TcEnumBinding (t_name f) (t_defaultBuffer f) fs bs) (TcSimpleBinding_new pointer f) [])"
| "instance' (TcStructType f cs ms) path parentReadOnly pointer =
     (let this = TcSymbol path (parentReadOnly \<or> t_readOnly f) TcStructureBinding
                   (TcSymbolBinding_new pointer) []
      in case TcSymbol_addChildren this
                (map (\<lambda>child.
                        (Name (fst child),
                         instance' (snd child) (path @ ''.'' @ fst child) (sym_readOnly this)
                           (TcSymbolPointer (ptr_indexGroup pointer)
                              (ptr_indexOffset pointer + t_offset (base (snd child)))
                              (t_size (base (snd child))))))
                   cs) of
           Inl e \<Rightarrow> Inl e
         | Inr this1 \<Rightarrow>
             (case TcSymbol_addMethods (map fst (sym_children this1)) ms of
                Some e \<Rightarrow> Inl e
              | None \<Rightarrow> Inr this1))"
| "instance' (TcArrayType f c ds) path parentReadOnly pointer =
     TcArraySymbol_new path parentReadOnly pointer f c ds 0"
| "TcArraySymbol_new path parentReadOnly pointer f c ds depth =
     (if length ds \<le> depth then Inl JsTypeError
      else
        (let startIndex = fst (ds ! depth);
             length' = snd (ds ! depth);
             this = TcSymbol path (parentReadOnly \<or> t_readOnly f) (TcArrayBinding startIndex length')
                      (TcSymbolBinding_new pointer) [];
             path1 = (if depth = 0 then path @ ''['' else butlast path @ '','')
         in if depth + 1 = length ds
            then TcSymbol_addChildren this
                   (map (\<lambda>index.
                           (Index index,
                            instance' c (path1 @ show_int index @ '']'') (sym_readOnly this)
                              (TcSymbolPointer (b_indexGroup (sym_binding this))
                                 (b_indexOffset (sym_binding this) + t_size (base c) * index)
                                 (t_size (base c)))))
                      [startIndex..startIndex + length' - 1])
            else
              (let offset' = b_size (sym_binding this) div length' in
               TcSymbol_addChildren this
                 (map (\<lambda>index.
                         (Index (startIndex + index),
                          TcArraySymbol_new (path1 @ show_int (startIndex + index) @ '']'')
                            (sym_readOnly this)
                            (TcSymbolPointer (b_indexGroup (sym_binding this))
                               (b_indexOffset (sym_binding this) + offset' * index) offset')
                            f c ds (depth + 1)))
                    [0..length' - 1]))))"
  by pat_completeness auto

termination
  by (relation "measures
        [\<lambda>x. case x of
               Inl (t, path, ro, pointer) \<Rightarrow> 2 * size t + 1
             | Inr (path, ro, pointer, f, c, ds, depth) \<Rightarrow> 2 * size c + 2,
         \<lambda>x. case x of
               Inl (t, path, ro, pointer) \<Rightarrow> 0
             | Inr (path, ro, pointer, f, c, ds, depth) \<Rightarrow> length ds - depth]")
     (auto dest: size_TcType_member)

declare TcArraySymbol_new.simps [simp del]

subsection \<open>Checking the value of a write\<close>

text \<open>
  The predicates of the library check-types: \<open>primitive\<close> holds of \<open>undefined\<close>, \<open>null\<close>,
  booleans, strings and every value of type \<open>number\<close>, \<open>NaN\<close> with them, and not of
  bigints; \<open>instance\<close> with \<open>BigInt\<close> holds of bigints; \<open>number\<close> holds of finite numbers,
  so not of \<open>NaN\<close>; \<open>object\<close> holds of plain objects, not of arrays or \<open>null\<close>.
\<close>

fun Check_primitive :: "jsval \<Rightarrow> bool" where
  "Check_primitive VUndefined = True"
| "Check_primitive VNull = True"
| "Check_primitive (VBool b) = True"
| "Check_primitive (VNum r) = True"
| "Check_primitive VNaN = True"
| "Check_primitive (VStr s) = True"
| "Check_primitive _ = False"

fun Check_instance_BigInt :: "jsval \<Rightarrow> bool" where
  "Check_instance_BigInt (VBig i) = True"
| "Check_instance_BigInt _ = False"

fun Check_boolean :: "jsval \<Rightarrow> bool" where
  "Check_boolean (VBool b) = True"
| "Check_boolean _ = False"

fun Check_number :: "jsval \<Rightarrow> bool" where
  "Check_number (VNum r) = True"
| "Check_number _ = False"

fun Check_string :: "jsval \<Rightarrow> bool" where
  "Check_string (VStr s) = True"
| "Check_string _ = False"

fun Check_object :: "jsval \<Rightarrow> bool" where
  "Check_object (VObj es) = True"
| "Check_object _ = False"

fun Check_array :: "jsval \<Rightarrow> bool" where
  "Check_array (VArr vs) = True"
| "Check_array _ = False"

text \<open>
  \<open>checkInput\<close>, class by class; every class runs the check of its superclass first. The
  result is the exception thrown, or \<open>None\<close>. The length of a string is counted in the
  characters of the model.
\<close>

definition TcBinding_checkInput :: "TcSymbol \<Rightarrow> error option" where
  "TcBinding_checkInput this =
     (if \<not> b_isValid (sym_binding this) then Some TcBindingIsInvalidException
      else if sym_readOnly this then Some TcBindingReadOnlyException
      else None)"

definition TcSimpleBinding_checkInput :: "TcSymbol \<Rightarrow> jsval \<Rightarrow> error option" where
  "TcSimpleBinding_checkInput this value =
     (case TcBinding_checkInput this of
        Some e \<Rightarrow> Some e
      | None \<Rightarrow>
          if \<not> Check_primitive value \<and> \<not> Check_instance_BigInt value
          then Some TcBindingInvalidTypeException
          else None)"

fun js_length :: "jsval \<Rightarrow> int" where
  "js_length (VStr s) = int (length s)"
| "js_length (VArr vs) = int (length vs)"
| "js_length _ = 0"

definition checkInput :: "TcSymbol \<Rightarrow> jsval \<Rightarrow> error option" where
  "checkInput this value =
     (case sym_kind this of
        TcBooleanBinding type' d \<Rightarrow>
          (case TcSimpleBinding_checkInput this value of
             Some e \<Rightarrow> Some e
           | None \<Rightarrow>
               if \<not> Check_boolean value then Some TcBindingInvalidTypeException else None)
      | TcNumericBinding type' d adst upper lower \<Rightarrow>
          (case TcSimpleBinding_checkInput this value of
             Some e \<Rightarrow> Some e
           | None \<Rightarrow>
               if (adst = ADST_UINT64 \<or> adst = ADST_INT64) \<and> \<not> Check_instance_BigInt value
               then Some TcBindingInvalidTypeException
               else if adst \<noteq> ADST_UINT64 \<and> adst \<noteq> ADST_INT64 \<and> \<not> Check_number value
               then Some TcBindingInvalidTypeException
               else if js_gt value upper \<or> js_lt value lower
               then Some TcBindingOutOfRangeException
               else None)
      | TcStringBinding type' d length' \<Rightarrow>
          (case TcSimpleBinding_checkInput this value of
             Some e \<Rightarrow> Some e
           | None \<Rightarrow>
               if \<not> Check_string value then Some TcBindingInvalidTypeException
               else if js_length value > length' then Some TcBindingOutOfRangeException
               else None)
      | TcEnumBinding type' d fs bs \<Rightarrow> TcSimpleBinding_checkInput this value
      | TcStructureBinding \<Rightarrow>
          (case TcBinding_checkInput this of
             Some e \<Rightarrow> Some e
           | None \<Rightarrow>
               if \<not> Check_object value then Some TcBindingInvalidTypeException else None)
      | TcArrayBinding startIndex length' \<Rightarrow>
          (case TcBinding_checkInput this of
             Some e \<Rightarrow> Some e
           | None \<Rightarrow>
               if \<not> Check_array value then Some TcBindingInvalidTypeException
               else if js_length value > length' then Some TcBindingOutOfRangeException
               else None)
      | TcNamespaceBinding \<Rightarrow>
          (case TcBinding_checkInput this of
             Some e \<Rightarrow> Some e
           | None \<Rightarrow>
               if \<not> Check_object value then Some TcBindingInvalidTypeException else None))"

subsection \<open>From values to data packages\<close>

text \<open>
  \<open>Promise.all\<close> over the conversions of the children: the packages of all children in
  order, or an exception of a child. When several children fail, the model reports the
  first of them in order; which one the runtime reports depends on the timing of the
  promises.
\<close>

fun Promise_all :: "(error + 'a) list \<Rightarrow> error + 'a list" where
  "Promise_all [] = Inr []"
| "Promise_all (Inl e # rest) = Inl e"
| "Promise_all (Inr x # rest) = (case Promise_all rest of Inl e \<Rightarrow> Inl e | Inr xs \<Rightarrow> Inr (x # xs))"

definition Promise_all_concat :: "(error + 'a list) list \<Rightarrow> error + 'a list" where
  "Promise_all_concat promises =
     (case Promise_all promises of Inl e \<Rightarrow> Inl e | Inr dataPackages \<Rightarrow> Inr (concat dataPackages))"

text \<open>The entries of the value of a write, each under the key of the child that takes it.\<close>

fun member_entries :: "jsval \<Rightarrow> (key \<times> jsval) list" where
  "member_entries (VObj es) = map (\<lambda>(memberName, memberValue). (Name memberName, memberValue)) es"
| "member_entries _ = []"

fun index_entries :: "int \<Rightarrow> jsval \<Rightarrow> (key \<times> jsval) list" where
  "index_entries startIndex (VArr vs) =
     map (\<lambda>(index, indexedValue). (Index (int index + startIndex), indexedValue))
       (zip [0..<length vs] vs)"
| "index_entries startIndex _ = []"

text \<open>
  The log line at the head of the loop over the entries. That of a structure and of a
  namespace reads \<open>memberValue.key\<close>, which throws a \<open>TypeError\<close> when the value of
  the member is \<open>undefined\<close> or \<open>null\<close>; that of an array reads the index only. The
  argument of the logger is evaluated whether logging is enabled or not.
\<close>

fun accessing :: "key \<Rightarrow> jsval \<Rightarrow> error option" where
  "accessing (Name memberName) memberValue =
     (if memberValue = VUndefined \<or> memberValue = VNull then Some JsTypeError else None)"
| "accessing (Index index) indexedValue = None"

text \<open>
  The look-up \<open>this.__childrenBindings[key]\<close> with a key that no child has: an index is
  not found, and a name is not found unless the object inherits it.
\<close>

fun inherited :: "key \<Rightarrow> bool" where
  "inherited (Name memberName) = (memberName \<in> set Object_prototype_names)"
| "inherited (Index index) = False"

lemma childrenBindings_values:
  "snd ` set (foldl (\<lambda>obj (k, c). if map_of obj k = None then obj @ [(k, c)] else obj) acc cs)
     \<subseteq> snd ` set acc \<union> snd ` set cs"
proof (induction cs arbitrary: acc)
  case Nil
  then show ?case by simp
next
  case (Cons kc cs)
  obtain k c where kc: "kc = (k, c)" by (cases kc)
  let ?acc = "if map_of acc k = None then acc @ [(k, c)] else acc"
  have "snd ` set (foldl (\<lambda>obj (k, c). if map_of obj k = None then obj @ [(k, c)] else obj) ?acc cs)
          \<subseteq> snd ` set ?acc \<union> snd ` set cs"
    by (rule Cons.IH)
  also have "\<dots> \<subseteq> insert c (snd ` set acc) \<union> snd ` set cs"
    by auto
  finally show ?case by (auto simp: kc)
qed

lemma childrenBindings_child:
  "obj_get (childrenBindings this) k = Some child \<Longrightarrow> child \<in> snd ` set (sym_children this)"
proof -
  assume "obj_get (childrenBindings this) k = Some child"
  then have "(k, child) \<in> set (childrenBindings this)"
    by (simp add: obj_get_def map_of_SomeD)
  then have "child \<in> snd ` set (childrenBindings this)" by force
  then show ?thesis
    using childrenBindings_values [of "[]" "sym_children this"] by (auto simp: childrenBindings_def)
qed

lemma size_TcSymbol_entry:
  "(k, c) \<in> set cs \<Longrightarrow> size c < Suc (size_list (size_prod (\<lambda>_. 0) size) cs)"
  by (induction cs) (auto simp: less_Suc_eq_le)

lemma size_TcSymbol_child: "child \<in> snd ` set (sym_children this) \<Longrightarrow> size child < size this"
  by (cases this) (auto dest: size_TcSymbol_entry)

text \<open>
  \<open>toRaw\<close>, class by class. A simple binding checks the value and has the ADS client
  encode it; the enum binding checks that the value is a string and a key of its buffers,
  and takes the package from there. A structure, an array and a namespace check the value
  and then walk its entries: after the log line, an entry without a child throws
  \<open>TcBindingOutOfRangeException\<close> at once, and every other entry starts the conversion of
  the child. An entry without a child whose name the object of the children inherits
  finds the inherited value instead, which has no method \<open>toRaw\<close>: the call is a
  \<open>TypeError\<close>. The enum binding looks its buffers up with \<open>obj_get\<close>, which is the code
  for every string but the inherited names: for these the code finds the inherited value
  and returns a package that holds it in the place of a buffer, which the model does not
  describe; the theorems about this look-up leave these strings out. The conversions of the children run in the order
  of the entries up to their calls of the ADS client, so the calls are made in this order.
\<close>

function toRaw ::
    "'s ADS \<Rightarrow> TcSymbol \<Rightarrow> jsval \<Rightarrow> 's TcCom \<Rightarrow> (error + TcDataPackage list) \<times> 's TcCom"
  and toRaw_members ::
    "'s ADS \<Rightarrow> TcSymbol \<Rightarrow> (key \<times> jsval) list \<Rightarrow> (error + TcDataPackage list) list \<Rightarrow> 's TcCom
       \<Rightarrow> (error + TcDataPackage list) \<times> 's TcCom"
where
  "toRaw A this value com =
     (case sym_kind this of
        TcEnumBinding type' d fs bs \<Rightarrow>
          (case TcSimpleBinding_checkInput this value of
             Some e \<Rightarrow> (Inl e, com)
           | None \<Rightarrow>
               (case value of
                  VStr s \<Rightarrow>
                    (case obj_get bs s of
                       None \<Rightarrow> (Inl TcBindingOutOfRangeException, com)
                     | Some buf \<Rightarrow>
                         (Inr [TcDataPackage (b_indexGroup (sym_binding this))
                                 (b_indexOffset (sym_binding this)) buf], com))
                | _ \<Rightarrow> (Inl TcBindingInvalidTypeException, com)))
      | TcStructureBinding \<Rightarrow>
          (case checkInput this value of
             Some e \<Rightarrow> (Inl e, com)
           | None \<Rightarrow> toRaw_members A this (member_entries value) [] com)
      | TcNamespaceBinding \<Rightarrow>
          (case checkInput this value of
             Some e \<Rightarrow> (Inl e, com)
           | None \<Rightarrow> toRaw_members A this (member_entries value) [] com)
      | TcArrayBinding startIndex length' \<Rightarrow>
          (case checkInput this value of
             Some e \<Rightarrow> (Inl e, com)
           | None \<Rightarrow> toRaw_members A this (index_entries startIndex value) [] com)
      | TcBooleanBinding type' d \<Rightarrow>
          (case checkInput this value of
             Some e \<Rightarrow> (Inl e, com)
           | None \<Rightarrow>
               (case TcCom_toRaw A type' value com of
                  (Inl e, com1) \<Rightarrow> (Inl e, com1)
                | (Inr buf, com1) \<Rightarrow>
                    (Inr [TcDataPackage (b_indexGroup (sym_binding this))
                            (b_indexOffset (sym_binding this)) buf], com1)))
      | TcNumericBinding type' d adst upper lower \<Rightarrow>
          (case checkInput this value of
             Some e \<Rightarrow> (Inl e, com)
           | None \<Rightarrow>
               (case TcCom_toRaw A type' value com of
                  (Inl e, com1) \<Rightarrow> (Inl e, com1)
                | (Inr buf, com1) \<Rightarrow>
                    (Inr [TcDataPackage (b_indexGroup (sym_binding this))
                            (b_indexOffset (sym_binding this)) buf], com1)))
      | TcStringBinding type' d length' \<Rightarrow>
          (case checkInput this value of
             Some e \<Rightarrow> (Inl e, com)
           | None \<Rightarrow>
               (case TcCom_toRaw A type' value com of
                  (Inl e, com1) \<Rightarrow> (Inl e, com1)
                | (Inr buf, com1) \<Rightarrow>
                    (Inr [TcDataPackage (b_indexGroup (sym_binding this))
                            (b_indexOffset (sym_binding this)) buf], com1))))"
| "toRaw_members A this [] promises com = (Promise_all_concat promises, com)"
| "toRaw_members A this ((k, v) # rest) promises com =
     (case accessing k v of
        Some e \<Rightarrow> (Inl e, com)
      | None \<Rightarrow>
          (case obj_get (childrenBindings this) k of
             None \<Rightarrow>
               if inherited k then (Inl JsTypeError, com)
               else (Inl TcBindingOutOfRangeException, com)
           | Some child \<Rightarrow>
               (case toRaw A child v com of
                  (r, com1) \<Rightarrow> toRaw_members A this rest (promises @ [r]) com1)))"
  by pat_completeness auto

termination
  by (relation "measures
        [\<lambda>x. case x of
               Inl (A, this, value, com) \<Rightarrow> 2 * size this + 1
             | Inr (A, this, entries, promises, com) \<Rightarrow> 2 * size this,
         \<lambda>x. case x of
               Inl (A, this, value, com) \<Rightarrow> 0
             | Inr (A, this, entries, promises, com) \<Rightarrow> length entries]")
     (auto dest!: childrenBindings_child size_TcSymbol_child)

declare toRaw.simps [simp del]

subsection \<open>From data packages to values\<close>

text \<open>
  \<open>Object.entries\<close> of the children of a binding lists the keys that are array indices
  first, in ascending order, and then the other keys in the order in which they were
  added. An index of an array child is an array index of the object when it lies between
  zero and \<open>2 ^ 32 - 2\<close>; the name of a member is an identifier and never one.
\<close>

fun is_array_index :: "key \<Rightarrow> bool" where
  "is_array_index (Index i) = (0 \<le> i \<and> i < 4294967295)"
| "is_array_index (Name n) = False"

fun index_of :: "key \<Rightarrow> int" where
  "index_of (Index i) = i"
| "index_of (Name n) = 0"

definition Object_keys :: "(key \<times> 'v) list \<Rightarrow> key list" where
  "Object_keys obj =
     sort_key index_of (filter is_array_index (map fst obj)) @
     filter (\<lambda>k. \<not> is_array_index k) (map fst obj)"

fun key_string :: "key \<Rightarrow> string" where
  "key_string (Name n) = n"
| "key_string (Index i) = show_int i"

text \<open>
  Assignment to an element of an array: the array grows to hold the index, the elements
  in between are holes, read as \<open>undefined\<close>. A negative index names a property and is no
  element.
\<close>

definition arr_set :: "jsval list \<Rightarrow> int \<Rightarrow> jsval \<Rightarrow> jsval list" where
  "arr_set arr i v =
     (if i < 0 then arr
      else (arr @ replicate (nat i + 1 - length arr) VUndefined)[nat i := v])"

text \<open>
  Reading the property \<open>name\<close> of a value, and a value in a template literal. The
  conversion of a value that is neither a string, \<open>undefined\<close>, \<open>null\<close> nor a boolean to
  a string is the parameter \<open>ToString\<close>.
\<close>

fun get_name :: "jsval \<Rightarrow> error + jsval" where
  "get_name VUndefined = Inl JsTypeError"
| "get_name VNull = Inl JsTypeError"
| "get_name (VObj es) = (case map_of es ''name'' of None \<Rightarrow> Inr VUndefined | Some v \<Rightarrow> Inr v)"
| "get_name _ = Inr VUndefined"

fun template :: "(jsval \<Rightarrow> string) \<Rightarrow> jsval \<Rightarrow> string" where
  "template ToString (VStr s) = s"
| "template ToString VUndefined = ''undefined''"
| "template ToString VNull = ''null''"
| "template ToString (VBool b) = (if b then ''true'' else ''false'')"
| "template ToString v = ToString v"

text \<open>
  \<open>TcSimpleBinding.fromRaw\<close>: one package at most is accepted, and the data of the first
  package is decoded by the ADS client; with no package at all, reading \<open>data\<close> of
  \<open>undefined\<close> is a \<open>TypeError\<close>.
\<close>

definition TcSimpleBinding_fromRaw ::
  "'s ADS \<Rightarrow> TcSymbol \<Rightarrow> string \<Rightarrow> TcDataPackage list \<Rightarrow> ('s, jsval) io"
where
  "TcSimpleBinding_fromRaw A this type' dataPackages com =
     (if \<not> b_isValid (sym_binding this) then (Inl TcBindingIsInvalidException, com)
      else if length dataPackages > 1 then (Inl TcBindingOutOfRangeException, com)
      else (case dataPackages of
              [] \<Rightarrow> (Inl JsTypeError, com)
            | p # ps \<Rightarrow> TcCom_fromRaw A type' (pkg_data p) com))"

text \<open>The results of the children of a structure or namespace, and of an array.\<close>

definition members_object :: "(key \<times> (error + jsval)) list \<Rightarrow> error + jsval" where
  "members_object results =
     (case Promise_all (map snd results) of
        Inl e \<Rightarrow> Inl e
      | Inr vs \<Rightarrow> Inr (VObj (zip (map (key_string \<circ> fst) results) vs)))"

definition members_array :: "int \<Rightarrow> (key \<times> (error + jsval)) list \<Rightarrow> error + jsval" where
  "members_array startIndex results =
     (case Promise_all (map snd results) of
        Inl e \<Rightarrow> Inl e
      | Inr vs \<Rightarrow>
          Inr (VArr (foldl (\<lambda>arr (k, v). arr_set arr (index_of k - startIndex) v) []
                       (zip (map fst results) vs))))"

text \<open>
  \<open>fromRaw\<close>, class by class. The numeric binding masks the value of an unsigned 64-bit
  kind with \<open>BigInt.asUintN\<close>, which throws a \<open>TypeError\<close> for a value that is no bigint.
  The enum binding prefixes the \<open>name\<close> of the decoded object with the name of the type.
  A structure, an array and a namespace hand to each child, in the order of
  \<open>Object.entries\<close>, as many of the packages as the child has read pointers.
\<close>

function fromRaw ::
    "'s ADS \<Rightarrow> (jsval \<Rightarrow> string) \<Rightarrow> TcSymbol \<Rightarrow> TcDataPackage list \<Rightarrow> 's TcCom
       \<Rightarrow> (error + jsval) \<times> 's TcCom"
  and fromRaw_members ::
    "'s ADS \<Rightarrow> (jsval \<Rightarrow> string) \<Rightarrow> TcSymbol \<Rightarrow> key list \<Rightarrow> TcDataPackage list \<Rightarrow> nat
       \<Rightarrow> (key \<times> (error + jsval)) list \<Rightarrow> 's TcCom
       \<Rightarrow> (key \<times> (error + jsval)) list \<times> 's TcCom"
where
  "fromRaw A ToString this dataPackages com =
     (case sym_kind this of
        TcBooleanBinding type' d \<Rightarrow> TcSimpleBinding_fromRaw A this type' dataPackages com
      | TcStringBinding type' d length' \<Rightarrow> TcSimpleBinding_fromRaw A this type' dataPackages com
      | TcNumericBinding type' d adst upper lower \<Rightarrow>
          (case TcSimpleBinding_fromRaw A this type' dataPackages com of
             (Inl e, com1) \<Rightarrow> (Inl e, com1)
           | (Inr result, com1) \<Rightarrow>
               if adst \<noteq> ADST_UINT64 then (Inr result, com1)
               else (case result of
                       VBig i \<Rightarrow> (Inr (VBig (i mod 2 ^ 64)), com1)
                     | _ \<Rightarrow> (Inl JsTypeError, com1)))
      | TcEnumBinding type' d fs bs \<Rightarrow>
          (case TcSimpleBinding_fromRaw A this type' dataPackages com of
             (Inl e, com1) \<Rightarrow> (Inl e, com1)
           | (Inr result, com1) \<Rightarrow>
               (case get_name result of
                  Inl e \<Rightarrow> (Inl e, com1)
                | Inr n \<Rightarrow> (Inr (VStr (type' @ ''.'' @ template ToString n)), com1)))
      | TcStructureBinding \<Rightarrow>
          (if \<not> b_isValid (sym_binding this) then (Inl TcBindingIsInvalidException, com)
           else (case fromRaw_members A ToString this (Object_keys (childrenBindings this))
                        dataPackages 0 [] com of
                   (results, com1) \<Rightarrow> (members_object results, com1)))
      | TcNamespaceBinding \<Rightarrow>
          (if \<not> b_isValid (sym_binding this) then (Inl TcBindingIsInvalidException, com)
           else (case fromRaw_members A ToString this (Object_keys (childrenBindings this))
                        dataPackages 0 [] com of
                   (results, com1) \<Rightarrow> (members_object results, com1)))
      | TcArrayBinding startIndex length' \<Rightarrow>
          (if \<not> b_isValid (sym_binding this) then (Inl TcBindingIsInvalidException, com)
           else (case fromRaw_members A ToString this (Object_keys (childrenBindings this))
                        dataPackages 0 [] com of
                   (results, com1) \<Rightarrow> (members_array startIndex results, com1))))"
| "fromRaw_members A ToString this [] dataPackages start results com = (results, com)"
| "fromRaw_members A ToString this (memberName # rest) dataPackages start results com =
     (case obj_get (childrenBindings this) memberName of
        None \<Rightarrow> fromRaw_members A ToString this rest dataPackages start results com
      | Some memberValue \<Rightarrow>
          (let length' = length (b_readPackages (sym_binding memberValue)) in
           case fromRaw A ToString memberValue (slice dataPackages start (start + length')) com of
             (r, com1) \<Rightarrow>
               fromRaw_members A ToString this rest dataPackages (start + length')
                 (results @ [(memberName, r)]) com1))"
  by pat_completeness auto

termination
  by (relation "measures
        [\<lambda>x. case x of
               Inl (A, ToString, this, dataPackages, com) \<Rightarrow> 2 * size this + 1
             | Inr (A, ToString, this, keys, dataPackages, start, results, com) \<Rightarrow> 2 * size this,
         \<lambda>x. case x of
               Inl (A, ToString, this, dataPackages, com) \<Rightarrow> 0
             | Inr (A, ToString, this, keys, dataPackages, start, results, com) \<Rightarrow> length keys]")
     (auto dest!: childrenBindings_child size_TcSymbol_child)

declare fromRaw.simps [simp del]

subsection \<open>The operations of a binding\<close>

text \<open>\<open>TcBinding.read\<close>, \<open>TcBinding.write\<close> and \<open>TcBinding.clear\<close>.\<close>

definition TcBinding_read :: "'s ADS \<Rightarrow> (jsval \<Rightarrow> string) \<Rightarrow> TcSymbol \<Rightarrow> ('s, jsval) io" where
  "TcBinding_read A ToString this com =
     (if \<not> b_isValid (sym_binding this) then (Inl TcBindingIsInvalidException, com)
      else (case TcCom_read A (b_readPackages (sym_binding this)) com of
              (Inl e, com1) \<Rightarrow> (Inl e, com1)
            | (Inr dataPackages, com1) \<Rightarrow> fromRaw A ToString this dataPackages com1))"

definition TcBinding_write :: "'s ADS \<Rightarrow> TcSymbol \<Rightarrow> jsval \<Rightarrow> ('s, jsval) io" where
  "TcBinding_write A this value com =
     (if \<not> b_isValid (sym_binding this) then (Inl TcBindingIsInvalidException, com)
      else (case toRaw A this value com of
              (Inl e, com1) \<Rightarrow> (Inl e, com1)
            | (Inr dataPackages, com1) \<Rightarrow>
                (case TcCom_write A dataPackages com1 of
                   (Inl e, com2) \<Rightarrow> (Inl e, com2)
                 | (Inr u, com2) \<Rightarrow> (Inr value, com2))))"

definition TcBinding_clear :: "'s ADS \<Rightarrow> TcSymbol \<Rightarrow> ('s, unit) io" where
  "TcBinding_clear A this com =
     (if \<not> b_isValid (sym_binding this) then (Inl TcBindingIsInvalidException, com)
      else if sym_readOnly this then (Inl TcBindingReadOnlyException, com)
      else TcCom_write A (b_clearPackages (sym_binding this)) com)"

subsection \<open>Invalidation\<close>

text \<open>
  \<open>TcSymbol.__invalidate\<close> clears the flag of the binding; a structure, an array and a
  namespace first invalidate each child of \<open>__children\<close>. The callback that a user may
  have attached is left out.
\<close>

fun is_composite :: "TcBindingKind \<Rightarrow> bool" where
  "is_composite TcStructureBinding = True"
| "is_composite (TcArrayBinding startIndex length') = True"
| "is_composite TcNamespaceBinding = True"
| "is_composite _ = False"

definition TcBinding_invalidate :: "TcBinding \<Rightarrow> TcBinding" where
  "TcBinding_invalidate b = b\<lparr>b_isValid := False\<rparr>"

fun invalidate :: "TcSymbol \<Rightarrow> TcSymbol" where
  "invalidate (TcSymbol path readOnly kind' b children) =
     (if is_composite kind'
      then TcSymbol path readOnly kind' (TcBinding_invalidate b)
             (map (\<lambda>child. (fst child, invalidate (snd child))) children)
      else TcSymbol path readOnly kind' (TcBinding_invalidate b) children)"

text \<open>
  The symbols below a symbol: the children that \<open>$each\<close> of a structure, an array or a
  namespace passes, and the symbols below them.
\<close>

fun descendants :: "TcSymbol \<Rightarrow> TcSymbol list" where
  "descendants (TcSymbol path readOnly kind' b children) =
     (if is_composite kind'
      then concat (map (\<lambda>child. snd child # descendants (snd child)) children)
      else [])"

section \<open>The registries and the context\<close>

text \<open>
  \<open>TcContext\<close> with its three components: the \<open>TcCom\<close>, the map of the type registry
  and the map of the symbol registry, from the name of a namespace to its symbol.
\<close>

record 's TcContext =
  COM :: "'s TcCom"
  types :: "(string \<times> TcType) list"
  symbols :: "(string \<times> TcSymbol) list"

text \<open>\<open>TcTypeRegistry.destroy\<close>: the map is emptied and \<open>destroyed\<close> is emitted.\<close>

definition TcTypeRegistry_destroy :: "'s TcContext \<Rightarrow> 's TcContext" where
  "TcTypeRegistry_destroy ctx =
     ctx\<lparr>types := [], COM := emit ''destroyed'' ''TcTypeRegistryDestroyedEvent'' (COM ctx)\<rparr>"

text \<open>
  \<open>TcSymbolRegistry.destroy\<close>: every namespace of the map is invalidated, the map is
  emptied and \<open>destroyed\<close> is emitted. A caller may hold the namespaces, and the symbols
  below them, beyond this point; the first component of the result is what these handles
  refer to afterwards.
\<close>

definition TcSymbolRegistry_destroy :: "'s TcContext \<Rightarrow> (string \<times> TcSymbol) list \<times> 's TcContext" where
  "TcSymbolRegistry_destroy ctx =
     (map (\<lambda>(n, namespace). (n, invalidate namespace)) (symbols ctx),
      ctx\<lparr>symbols := [], COM := emit ''destroyed'' ''TcSymbolRegistryDestroyedEvent'' (COM ctx)\<rparr>)"

text \<open>
  \<open>TcContext.kill\<close>: the three steps are awaited one after the other, and \<open>killed\<close> is
  emitted when none of them has thrown. The two \<open>destroy\<close> do not throw.
\<close>

definition kill :: "'s ADS \<Rightarrow> 's TcContext \<Rightarrow> (error + unit) \<times> (string \<times> TcSymbol) list \<times> 's TcContext" where
  "kill A ctx =
     (let ctx1 = TcTypeRegistry_destroy ctx in
      case TcSymbolRegistry_destroy ctx1 of
        (handles, ctx2) \<Rightarrow>
          (case TcCom_disconnect A (COM ctx2) of
             (Inl e, com3) \<Rightarrow> (Inl e, handles, ctx2\<lparr>COM := com3\<rparr>)
           | (Inr u, com3) \<Rightarrow>
               (Inr (), handles, ctx2\<lparr>COM := emit ''killed'' ''TcContextKilledEvent'' com3\<rparr>)))"

text \<open>
  The steps of a teardown as an observer tells them apart, and the order of some actions
  within a trace: each of \<open>as\<close> occurs in the trace, the next one after the one before.
\<close>

definition symbols_destroyed :: action where
  "symbols_destroyed = Emit ''destroyed'' ''TcSymbolRegistryDestroyedEvent''"

definition types_destroyed :: action where
  "types_destroyed = Emit ''destroyed'' ''TcTypeRegistryDestroyedEvent''"

fun in_order :: "'a list \<Rightarrow> 'a list \<Rightarrow> bool" where
  "in_order [] tr = True"
| "in_order (a # as) [] = False"
| "in_order (a # as) (x # tr) = (if a = x then in_order as tr else in_order (a # as) tr)"

section \<open>Properties stated by the specification\<close>

text \<open>
  The invariant of a numeric type node, in the words of the specification:
  \<open>lower \<le> defaultValue \<le> upper\<close>, read through the getters and compared as numbers.
\<close>

definition js_le :: "jsval \<Rightarrow> jsval \<Rightarrow> bool" where
  "js_le a b = (case (numeric a, numeric b) of (Some x, Some y) \<Rightarrow> x \<le> y | _ \<Rightarrow> False)"




text \<open>
  A value of the numeric kind of a binding: a bigint for the two 64-bit kinds, a finite
  number for the others.
\<close>

definition correct_numeric_kind :: "int \<Rightarrow> jsval \<Rightarrow> bool" where
  "correct_numeric_kind adst v =
     (if adst = ADST_UINT64 \<or> adst = ADST_INT64 then Check_instance_BigInt v else Check_number v)"


text \<open>
  An operation on a binding that fails with \<open>TcBindingIsInvalidException\<close> and leaves the
  \<open>TcCom\<close>, and so its trace of calls, as it was; and a symbol on which the flag is down
  and every \<open>read\<close>, \<open>write\<close> and \<open>clear\<close> is refused in this way.
\<close>

definition refused :: "'s TcCom \<Rightarrow> (error + 'a) \<times> 's TcCom \<Rightarrow> bool" where
  "refused com result = (result = (Inl TcBindingIsInvalidException, com))"

definition invalidated :: "'s ADS \<Rightarrow> (jsval \<Rightarrow> string) \<Rightarrow> jsval \<Rightarrow> 's TcCom \<Rightarrow> TcSymbol \<Rightarrow> bool" where
  "invalidated A ToString v com s =
     (\<not> b_isValid (sym_binding s) \<and>
      refused com (TcBinding_read A ToString s com) \<and>
      refused com (TcBinding_write A s v com) \<and>
      refused com (TcBinding_clear A s com))"


















section \<open>Concrete inputs\<close>

text \<open>
  An ADS client for the examples: its state is the list of the packages written so far;
  a read answers each pointer with the data last written at its group and offset; it
  encodes a boolean as one byte, a string as its characters and a number as one byte, and
  decodes a buffer of the type \<open>MyEnum\<close> to an object with the fields \<open>name\<close> and
  \<open>value\<close> and any other buffer to the number of its first byte. No call fails.
\<close>

definition last_written :: "TcDataPackage list \<Rightarrow> int \<Rightarrow> int \<Rightarrow> buffer" where
  "last_written s g off =
     (case filter (\<lambda>p. pkg_indexGroup p = g \<and> pkg_indexOffset p = off) (rev s) of
        [] \<Rightarrow> []
      | p # ps \<Rightarrow> pkg_data p)"

definition ADS_sim :: "TcDataPackage list ADS" where
  "ADS_sim =
     \<lparr>readRawMulti = (\<lambda>ptrs s.
        (Some (map (\<lambda>p. TcDataPackage (ptr_indexGroup p) (ptr_indexOffset p)
                           (last_written s (ptr_indexGroup p) (ptr_indexOffset p))) ptrs), s)),
      writeRawMulti = (\<lambda>pkgs s. (True, s @ pkgs)),
      convertToRaw = (\<lambda>v ty s.
        ((case v of
            VBool b \<Rightarrow> Some [if b then 1 else 0]
          | VStr str \<Rightarrow> Some (map of_char str)
          | VNum r \<Rightarrow> Some [nat \<lfloor>r\<rfloor>]
          | VBig i \<Rightarrow> Some [nat i]
          | _ \<Rightarrow> None), s)),
      convertFromRaw = (\<lambda>buf ty s.
        (if ty = ''MyEnum''
         then Some (VObj [(''name'', VStr (if buf = [1, 0] then ''member2'' else ''member1'')),
                          (''value'', VNum (case buf of [] \<Rightarrow> 0 | b # bs \<Rightarrow> real b))])
         else Some (VNum (case buf of [] \<Rightarrow> 0 | b # bs \<Rightarrow> real b)), s)),
      unsubscribeAll = (\<lambda>s. (True, s)),
      disconnect = (\<lambda>s. (True, s))\<rparr>"

definition com_connected :: "TcDataPackage list TcCom" where
  "com_connected = \<lparr>ads = Some [], trace = []\<rparr>"

text \<open>A context that is connected and holds no type and no symbol.\<close>

definition ctx_empty :: "TcDataPackage list TcContext" where
  "ctx_empty = \<lparr>COM = com_connected, types = [], symbols = []\<rparr>"

text \<open>
  The raw descriptor of \<open>STRING(50)\<close> with the attribute \<open>Default\<close> of the documentation,
  and that of \<open>BYTE\<close> with a default beyond its range.
\<close>

definition string50_info :: TcTypeInfo where
  "string50_info =
     \<lparr>attributes = Some [(''Default'', ''hello world'')], adsDataType = ADST_STRING,
      offset = None, name = ''STRING(50)'', size' = 51,
      arrayData = [], enumInfo = None, rpcMethods = []\<rparr>"


text \<open>\<open>parseFloat\<close> and \<open>BigInt\<close> on the one string that the examples parse.\<close>

definition parseFloat_300 :: "string \<Rightarrow> real option" where
  "parseFloat_300 s = (if s = ''300'' then Some 300 else None)"

definition BigInt_300 :: "string \<Rightarrow> int option" where
  "BigInt_300 s = (if s = ''300'' then Some 300 else None)"






text \<open>The type node of \<open>STRING(50)\<close> that \<open>create\<close> makes of \<open>string50_info\<close>.\<close>

definition string50_type :: TcType where
  "string50_type =
     TcStringType
       \<lparr>t_name = ''STRING(50)'', t_adst = ADST_STRING, t_readOnly = False, t_ignored = False,
        t_default = VBool True, t_offset = 0, t_size = 51, t_defaultBuffer = Some [1],
        t_onSet = None, t_onGet = None, t_onClear = None, t_onChange = None\<rparr>
       50"

text \<open>
  Symbols of the program \<open>MAIN\<close>: a \<open>BYTE\<close> with the range from 0 to 255, and a variable
  of the enumeration \<open>MyEnum\<close>, once writable and once read-only.
\<close>

definition byte_symbol :: TcSymbol where
  "byte_symbol =
     TcSymbol ''MAIN.numericValue'' False
       (TcNumericBinding ''BYTE'' (Some [0]) ADST_UINT8 (VNum 255) (VNum 0))
       \<lparr>b_isValid = True, b_indexGroup = 16448, b_indexOffset = 200, b_size = 1,
        b_readPackages = [TcSymbolPointer 16448 200 1],
        b_clearPackages = [TcDataPackage 16448 200 [0]]\<rparr>
       []"

definition enum_symbol :: "bool \<Rightarrow> TcSymbol" where
  "enum_symbol readOnly =
     TcSymbol ''MAIN.enumValue'' readOnly
       (TcEnumBinding ''MyEnum'' (Some [0, 0])
          [''MyEnum.member1'', ''MyEnum.member2'']
          [(''MyEnum.member1'', [0, 0]), (''MyEnum.member2'', [1, 0])])
       \<lparr>b_isValid = True, b_indexGroup = 16448, b_indexOffset = 300, b_size = 2,
        b_readPackages = [TcSymbolPointer 16448 300 2],
        b_clearPackages = [TcDataPackage 16448 300 [0, 0]]\<rparr>
       []"

text \<open>A connected \<open>TcCom\<close> whose controller holds \<open>member2\<close> at the enum variable.\<close>

definition com_member2 :: "TcDataPackage list TcCom" where
  "com_member2 = \<lparr>ads = Some [TcDataPackage 16448 300 [1, 0]], trace = []\<rparr>"

text \<open>The namespace \<open>MAIN\<close> with the two variables, as the registry holds it.\<close>

definition main_namespace :: TcSymbol where
  "main_namespace =
     TcSymbol ''MAIN'' False TcNamespaceBinding
       \<lparr>b_isValid = True, b_indexGroup = 16448, b_indexOffset = 200, b_size = 102,
        b_readPackages = [TcSymbolPointer 16448 200 1, TcSymbolPointer 16448 300 2],
        b_clearPackages = [TcDataPackage 16448 200 [0], TcDataPackage 16448 300 [0, 0]]\<rparr>
       [(Name ''numericValue'', byte_symbol), (Name ''enumValue'', enum_symbol False)]"

definition ctx_main :: "TcDataPackage list TcContext" where
  "ctx_main = \<lparr>COM = com_connected, types = [], symbols = [(''MAIN'', main_namespace)]\<rparr>"

text \<open>
  The structure of the documentation: a \<open>REAL\<close> member and a \<open>STRING(50)\<close> member marked
  read-only, each with the buffer of its default as \<open>create\<close> has stored it.
\<close>

definition real_type :: TcType where
  "real_type =
     TcNumericType
       \<lparr>t_name = ''REAL'', t_adst = ADST_REAL32, t_readOnly = False, t_ignored = False,
        t_default = VUndefined, t_offset = 0, t_size = 4, t_defaultBuffer = Some [0, 0, 0, 0],
        t_onSet = None, t_onGet = None, t_onClear = None, t_onChange = None\<rparr>
       None None"

definition readOnly_string_type :: TcType where
  "readOnly_string_type =
     TcStringType
       \<lparr>t_name = ''STRING(50)'', t_adst = ADST_STRING, t_readOnly = True, t_ignored = False,
        t_default = VUndefined, t_offset = 4, t_size = 51, t_defaultBuffer = Some [],
        t_onSet = None, t_onGet = None, t_onClear = None, t_onChange = None\<rparr>
       50"

definition struct_type :: TcType where
  "struct_type =
     TcStructType
       \<lparr>t_name = ''ST_Example'', t_adst = ADST_BIGTYPE, t_readOnly = False, t_ignored = False,
        t_default = VUndefined, t_offset = 0, t_size = 55, t_defaultBuffer = None,
        t_onSet = None, t_onGet = None, t_onClear = None, t_onChange = None\<rparr>
       [(''realValue'', real_type), (''stringValue'', readOnly_string_type)] []"

text \<open>A boolean variable at a given offset and of a given size in the group 16448.\<close>

definition bool_symbol :: "string \<Rightarrow> int \<Rightarrow> int \<Rightarrow> TcSymbol" where
  "bool_symbol path off sz =
     TcSymbol path False (TcBooleanBinding ''BOOL'' (Some [0]))
       \<lparr>b_isValid = True, b_indexGroup = 16448, b_indexOffset = off, b_size = sz,
        b_readPackages = [TcSymbolPointer 16448 off sz],
        b_clearPackages = [TcDataPackage 16448 off [0]]\<rparr>
       []"





text \<open>
  A union of two bytes \<open>b\<close> and \<open>c\<close>, as the type registry makes it: a structure type
  whose members both lie at offset zero. Its symbol at offset 2000 is \<open>union_symbol\<close>.
\<close>

definition byte_fields :: TcTypeFields where
  "byte_fields =
     \<lparr>t_name = ''BYTE'', t_adst = ADST_UINT8, t_readOnly = False, t_ignored = False,
      t_default = VUndefined, t_offset = 0, t_size = 1, t_defaultBuffer = Some [0],
      t_onSet = None, t_onGet = None, t_onClear = None, t_onChange = None\<rparr>"




text \<open>
  The raw descriptor of \<open>BYTE\<close> with an upper border that \<open>parseFloat\<close> cannot read, the
  type node made of it, and the symbol of that type at offset 200: its upper border is
  \<open>NaN\<close>.
\<close>

definition byte_nan_info :: TcTypeInfo where
  "byte_nan_info =
     \<lparr>attributes = Some [(''UpperBorder'', ''abc'')], adsDataType = ADST_UINT8,
      offset = None, name = ''BYTE'', size' = 1,
      arrayData = [], enumInfo = None, rpcMethods = []\<rparr>"

definition byte_nan_type :: TcType where
  "byte_nan_type = TcNumericType byte_fields (Some VNaN) None"

definition byte_nan_symbol :: TcSymbol where
  "byte_nan_symbol =
     TcSymbol ''MAIN.numericValue'' False
       (TcNumericBinding ''BYTE'' (Some [0]) ADST_UINT8 VNaN (VNum 0))
       \<lparr>b_isValid = True, b_indexGroup = 16448, b_indexOffset = 200, b_size = 1,
        b_readPackages = [TcSymbolPointer 16448 200 1],
        b_clearPackages = [TcDataPackage 16448 200 [0]]\<rparr>
       []"

text \<open>A \<open>BYTE\<close> symbol whose lower border is \<open>NaN\<close>.\<close>

definition lower_nan_symbol :: TcSymbol where
  "lower_nan_symbol =
     TcSymbol ''MAIN.numericValue'' False
       (TcNumericBinding ''BYTE'' (Some [0]) ADST_UINT8 (VNum 255) VNaN)
       \<lparr>b_isValid = True, b_indexGroup = 16448, b_indexOffset = 200, b_size = 1,
        b_readPackages = [TcSymbolPointer 16448 200 1],
        b_clearPackages = [TcDataPackage 16448 200 [0]]\<rparr>
       []"


section \<open>Request splitting\<close>

lemma ceil_div_step:
  "e + 500 < (n::nat) \<Longrightarrow> (n - e + 499) div 500 = Suc ((n - (e + 500) + 499) div 500)"
proof -
  assume "e + 500 < n"
  then have "n - e + 499 = (n - (e + 500) + 499) + 500" by simp
  then show ?thesis by (simp only: div_add_self2)
qed

lemma ceil_div_last:
  "\<not> e + 500 < (n::nat) \<Longrightarrow> e \<le> n \<Longrightarrow> e \<noteq> n \<Longrightarrow> (n - e + 499) div 500 = 1"
proof -
  assume h: "\<not> e + 500 < n" "e \<le> n" "e \<noteq> n"
  define k where "k = n - e"
  have k: "0 < k" "k \<le> 500" using h by (auto simp: k_def)
  have "500 \<le> k + 499" "k + 499 < 1000" using k by auto
  then have "(k + 499) div 500 = 1"
    by (simp add: div_nat_eqI)
  then show ?thesis by (simp add: k_def)
qed

lemma splitData_loop_unfold:
  "splitData_loop data result e e =
     (if e + 500 < length data
      then splitData_loop data (result @ [take 500 (drop e data)]) (e + 500) (e + 500)
      else result @ [drop e data])"
proof (cases "e + 500 < length data")
  case True
  then show ?thesis
    by (subst splitData_loop.simps) (simp add: slice_def Let_def)
next
  case False
  then show ?thesis
    by (subst splitData_loop.simps) (simp add: slice_def Let_def)
qed

lemma splitData_loop_concat:
  "e \<le> length data \<Longrightarrow>
   concat (splitData_loop data result e e) = concat result @ drop e data"
proof (induction "length data - e" arbitrary: e result rule: less_induct)
  case less
  show ?case
  proof (cases "e + 500 < length data")
    case True
    have "concat (splitData_loop data (result @ [take 500 (drop e data)]) (e + 500) (e + 500))
          = concat (result @ [take 500 (drop e data)]) @ drop (e + 500) data"
      using True by (intro less.hyps) auto
    moreover have "take 500 (drop e data) @ drop (e + 500) data = drop e data"
      by (metis add.commute append_take_drop_id drop_drop)
    ultimately show ?thesis
      using True by (subst splitData_loop_unfold) simp
  next
    case False
    then show ?thesis
      by (subst splitData_loop_unfold) simp
  qed
qed

lemma splitData_loop_length:
  "e \<le> length data \<Longrightarrow>
   length (splitData_loop data result e e) =
     length result + (if e = length data then 1 else (length data - e + 499) div 500)"
proof (induction "length data - e" arbitrary: e result rule: less_induct)
  case less
  show ?case
  proof (cases "e + 500 < length data")
    case True
    have "length (splitData_loop data (result @ [take 500 (drop e data)]) (e + 500) (e + 500))
          = length (result @ [take 500 (drop e data)])
            + (if e + 500 = length data then 1 else (length data - (e + 500) + 499) div 500)"
      using True by (intro less.hyps) auto
    moreover have "(length data - e + 499) div 500 = Suc ((length data - (e + 500) + 499) div 500)"
      using True by (rule ceil_div_step)
    ultimately show ?thesis
      using True by (subst splitData_loop_unfold) simp
  next
    case False
    then have "e \<noteq> length data \<Longrightarrow> (length data - e + 499) div 500 = 1"
      using less.prems by (simp add: ceil_div_last)
    then show ?thesis
      using False by (subst splitData_loop_unfold) auto
  qed
qed

lemma splitData_loop_sizes:
  "e \<le> length data \<Longrightarrow> \<forall>g \<in> set result. length g \<le> 500 \<Longrightarrow>
   \<forall>g \<in> set (splitData_loop data result e e). length g \<le> 500"
proof (induction "length data - e" arbitrary: e result rule: less_induct)
  case less
  show ?case
  proof (cases "e + 500 < length data")
    case True
    have "\<forall>g \<in> set (splitData_loop data (result @ [take 500 (drop e data)]) (e + 500) (e + 500)).
            length g \<le> 500"
      using True less.prems(2) by (intro less.hyps) auto
    then show ?thesis
      using True by (subst splitData_loop_unfold) simp
  next
    case False
    then show ?thesis
      using less.prems by (subst splitData_loop_unfold) auto
  qed
qed


lemma splitData_single: "splitData [x] = [[x]]"
  by (simp add: splitData_def splitData_loop.simps [of "[x]"] slice_def)

lemma TcCom_write_loop_success:
  "TcCom_write_loop A gs s tr = (Inr u, s', tr') \<Longrightarrow> tr' = tr @ map WriteRawMulti gs"
proof (induction gs arbitrary: s tr)
  case Nil
  then show ?case by simp
next
  case (Cons g gs)
  obtain ok s1 where w: "writeRawMulti A g s = (ok, s1)" by (cases "writeRawMulti A g s")
  with Cons.prems have "TcCom_write_loop A gs s1 (tr @ [WriteRawMulti g]) = (Inr u, s', tr')"
    by (cases ok) simp_all
  from Cons.IH [OF this] show ?case by simp
qed

lemma TcCom_read_loop_success:
  "TcCom_read_loop A gs result s tr = (Inr response, s', tr') \<Longrightarrow>
   tr' = tr @ map ReadRawMulti gs"
proof (induction gs arbitrary: result s tr)
  case Nil
  then show ?case by simp
next
  case (Cons g gs)
  obtain answer s1 where r: "readRawMulti A g s = (answer, s1)" by (cases "readRawMulti A g s")
  with Cons.prems obtain a where
    "TcCom_read_loop A gs (result @ a) s1 (tr @ [ReadRawMulti g]) = (Inr response, s', tr')"
    by (cases answer) simp_all
  from Cons.IH [OF this] show ?case by simp
qed

lemma splitData_1001:
  "splitData (replicate 1001 x) = [replicate 500 x, replicate 500 x, [x]]"
  unfolding splitData_def
  by (simp add: splitData_loop_unfold [of "replicate 1001 x" _ 0]
      splitData_loop_unfold [of "replicate 1001 x" _ 500]
      splitData_loop_unfold [of "replicate 1001 x" _ 1000])

text \<open>
  C4, as the code has it. A list of \<open>m \<ge> 1\<close> items is split into exactly
  \<open>\<lceil>m / 500\<rceil>\<close> groups of at most 500 items each, and the groups, one after the other,
  are the input list. An empty list is not split into zero groups: the loop body runs
  once, and the result is the single empty group. A write and a read that succeed have
  made one call of the ADS client for each group, in the order of the groups, and no
  other call.
\<close>

theorem splitData_groups:
  "concat (splitData data) = data \<and>
   (\<forall>g \<in> set (splitData data). length g \<le> 500) \<and>
   length (splitData data) = (if data = [] then 1 else (length data + 499) div 500) \<and>
   (TcCom_write A dataPackages com = (Inr u, com1) \<longrightarrow>
      trace com1 = trace com @ map WriteRawMulti (splitData dataPackages)) \<and>
   (TcCom_read A pointer com = (Inr response, com2) \<longrightarrow>
      trace com2 = trace com @ map ReadRawMulti (splitData pointer))"
proof -
  have w: "trace com1 = trace com @ map WriteRawMulti (splitData dataPackages)"
    if "TcCom_write A dataPackages com = (Inr u, com1)"
    using that
    by (auto simp: TcCom_write_def split: option.splits prod.splits
        dest: TcCom_write_loop_success)
  have r: "trace com2 = trace com @ map ReadRawMulti (splitData pointer)"
    if "TcCom_read A pointer com = (Inr response, com2)"
    using that
    by (auto simp: TcCom_read_def split: option.splits prod.splits
        dest: TcCom_read_loop_success)
  have s: "concat (splitData data) = data \<and>
   (\<forall>g \<in> set (splitData data). length g \<le> 500) \<and>
   length (splitData data) = (if data = [] then 1 else (length data + 499) div 500)"
    unfolding splitData_def
    using splitData_loop_concat [of 0 data "[]"] splitData_loop_length [of 0 data "[]"]
      splitData_loop_sizes [of 0 data "[]"]
    by auto
  show ?thesis using s w r by blast
qed

text \<open>
  On 1001 items: three groups of 500, 500 and 1 items, and a write and a read of 1001
  items through a client that accepts every call make three calls of these sizes.
\<close>

theorem splitData_groups_witness:
  "concat (splitData (replicate 1001 (TcDataPackage 16448 200 [5]))) =
     replicate 1001 (TcDataPackage 16448 200 [5]) \<and>
   list_all (\<lambda>g. length g \<le> 500) (splitData (replicate 1001 (TcDataPackage 16448 200 [5]))) \<and>
   length (splitData (replicate 1001 (TcDataPackage 16448 200 [5]))) = 3 \<and>
   map (\<lambda>a. case a of WriteRawMulti g \<Rightarrow> length g | _ \<Rightarrow> 0)
     (trace (snd (TcCom_write ADS_sim (replicate 1001 (TcDataPackage 16448 200 [5])) com_connected))) =
     [500, 500, 1] \<and>
   map (\<lambda>a. case a of ReadRawMulti g \<Rightarrow> length g | _ \<Rightarrow> 0)
     (trace (snd (TcCom_read ADS_sim (replicate 1001 (TcSymbolPointer 16448 200 1)) com_connected))) =
     [500, 500, 1]"
proof -
  let ?p = "TcDataPackage 16448 200 [5]"
  let ?q = "TcSymbolPointer 16448 200 1"
  obtain com1 where w: "TcCom_write ADS_sim (replicate 1001 ?p) com_connected = (Inr (), com1)"
    by (simp add: TcCom_write_def com_connected_def splitData_1001 ADS_sim_def)
  obtain response com2 where
    r: "TcCom_read ADS_sim (replicate 1001 ?q) com_connected = (Inr response, com2)"
    by (simp add: TcCom_read_def com_connected_def splitData_1001 ADS_sim_def)
  have t: "trace com_connected = []" by (simp add: com_connected_def)
  note th = splitData_groups [of "replicate 1001 ?p" ADS_sim "replicate 1001 ?p" com_connected
      "()" com1 "replicate 1001 ?q" response com2]
  have "trace com1 = map WriteRawMulti (splitData (replicate 1001 ?p))"
    using th w t by simp
  then have 1: "map (\<lambda>a. case a of WriteRawMulti g \<Rightarrow> length g | _ \<Rightarrow> 0)
     (trace (snd (TcCom_write ADS_sim (replicate 1001 ?p) com_connected))) = [500, 500, 1]"
    by (simp add: w splitData_1001)
  have "trace com2 = map ReadRawMulti (splitData (replicate 1001 ?q))"
    using th r t by simp
  then have 2: "map (\<lambda>a. case a of ReadRawMulti g \<Rightarrow> length g | _ \<Rightarrow> 0)
     (trace (snd (TcCom_read ADS_sim (replicate 1001 ?q) com_connected))) = [500, 500, 1]"
    by (simp add: r splitData_1001)
  show ?thesis using th 1 2 by (simp add: list_all_iff)
qed

text \<open>The claim of C4 as stated fails for the empty list: zero groups are claimed, one is made.\<close>

theorem splitData_empty_counterexample:
  "length (splitData ([] :: nat list)) \<noteq> (length ([] :: nat list) + 499) div 500"
  unfolding splitData_def by (subst splitData_loop.simps) (simp add: slice_def)

section \<open>Teardown of the context\<close>

text \<open>
  C3, as the code has it. \<open>kill\<close> destroys the type registry first, then the symbol
  registry, which invalidates every namespace of its map, and then disconnects the
  transport: what \<open>kill\<close> adds to the trace is the \<open>destroyed\<close> event of the type
  registry, the \<open>destroyed\<close> event of the symbol registry, the two calls of the ADS client
  when there is a connection, the \<open>disconnected\<close> event, and the \<open>killed\<close> event when the
  disconnect has not thrown. Afterwards both maps are empty and there is no connection.
\<close>

theorem kill_order:
  "trace (COM (snd (snd (kill A ctx)))) =
     trace (COM ctx) @ [types_destroyed, symbols_destroyed] @
     (if ads (COM ctx) = None then [] else [UnsubscribeAll, Disconnect]) @
     [Emit ''disconnected'' ''TcComDisconnectedEvent''] @
     (case fst (kill A ctx) of Inl e \<Rightarrow> [] | Inr u \<Rightarrow> [Emit ''killed'' ''TcContextKilledEvent'']) \<and>
   fst (snd (kill A ctx)) = map (\<lambda>(n, namespace). (n, invalidate namespace)) (symbols ctx) \<and>
   types (snd (snd (kill A ctx))) = [] \<and>
   symbols (snd (snd (kill A ctx))) = [] \<and>
   ads (COM (snd (snd (kill A ctx)))) = None"
  by (auto simp: kill_def TcTypeRegistry_destroy_def TcSymbolRegistry_destroy_def
      TcCom_disconnect_def emit_def types_destroyed_def symbols_destroyed_def Let_def
      split: prod.splits option.splits sum.splits)

text \<open>
  The order that C3 states, symbol registry, type registry, transport, is not the order
  of the trace of \<open>kill\<close> on a connected context.
\<close>

theorem kill_order_counterexample:
  "\<not> in_order [symbols_destroyed, types_destroyed, Disconnect]
       (trace (COM (snd (snd (kill ADS_sim ctx_empty)))))"
  by (simp add: kill_def TcTypeRegistry_destroy_def TcSymbolRegistry_destroy_def
      TcCom_disconnect_def emit_def types_destroyed_def symbols_destroyed_def Let_def
      ADS_sim_def ctx_empty_def com_connected_def)

section \<open>The default of a string type\<close>

text \<open>
  C9 does not hold of the code. \<open>TcStringType.__getParameter\<close> stores \<open>true\<close> for the
  attribute \<open>Default\<close>, whatever its value: the type made of the descriptor of
  \<open>STRING(50)\<close> with the default \<open>hello world\<close> has the default value \<open>true\<close>, \<open>create\<close>
  has the ADS client encode \<open>true\<close>, and \<open>clear\<close> on a symbol of the type writes that
  buffer.
\<close>

theorem string_default_attribute_stores_true:
  "map_sum id defaultValue (TcStringType_new parseFloat BigInt string50_info) = Inr (VBool True) \<and>
   TcStringType_create ADS_sim parseFloat BigInt string50_info com_connected =
     (Inr (Some string50_type),
      \<lparr>ads = Some [], trace = [ConvertToRaw (VBool True) ''STRING(50)'']\<rparr>) \<and>
   map_sum id (\<lambda>s. trace (snd (TcBinding_clear ADS_sim s com_connected)))
     (instance' string50_type ''MAIN.stringValue'' False (TcSymbolPointer 16448 100 51)) =
     Inr [WriteRawMulti [TcDataPackage 16448 100 [1]]]"
proof (intro conjI)
  show "map_sum id defaultValue (TcStringType_new parseFloat BigInt string50_info) = Inr (VBool True)"
    by (simp add: TcStringType_new_def mutate_def string50_info_def TcType_fields_of_info_def
        TcType_getParameter_def toLowerCase_def trim_def isWhiteSpace_def toLowerCase_char_def upperCase_def lowerCase_def
        or_number_def Let_def)
  show "TcStringType_create ADS_sim parseFloat BigInt string50_info com_connected =
     (Inr (Some string50_type),
      \<lparr>ads = Some [], trace = [ConvertToRaw (VBool True) ''STRING(50)'']\<rparr>)"
    by (simp add: TcStringType_create_def create_encoded_def TcStringType_new_def mutate_def
        string50_info_def TcType_fields_of_info_def TcType_getParameter_def toLowerCase_def
        trim_def isWhiteSpace_def toLowerCase_char_def upperCase_def lowerCase_def or_number_def Let_def TcCom_toRaw_def
        ADS_sim_def com_connected_def string50_type_def)
  show "map_sum id (\<lambda>s. trace (snd (TcBinding_clear ADS_sim s com_connected)))
     (instance' string50_type ''MAIN.stringValue'' False (TcSymbolPointer 16448 100 51)) =
     Inr [WriteRawMulti [TcDataPackage 16448 100 [1]]]"
    by (simp add: string50_type_def TcSimpleBinding_new_def TcSymbolBinding_new_def
        TcBinding_new_def TcBinding_clear_def TcCom_write_def com_connected_def splitData_def
        splitData_loop.simps [of "[x]" for x] slice_def ADS_sim_def Let_def)
qed

section \<open>The invariant of a numeric type\<close>


























section \<open>Writing to a numeric binding\<close>

lemma numeric_checkInput:
  assumes "sym_kind this = TcNumericBinding type' d adst upper lower"
    and "b_isValid (sym_binding this)" and "\<not> sym_readOnly this"
  shows "checkInput this v =
     (if \<not> correct_numeric_kind adst v then Some TcBindingInvalidTypeException
      else if js_gt v upper \<or> js_lt v lower then Some TcBindingOutOfRangeException
      else None)"
  using assms
  by (cases v)
     (auto simp: checkInput_def TcSimpleBinding_checkInput_def TcBinding_checkInput_def
       correct_numeric_kind_def)

text \<open>
  C7, as the code has it. The borders are compared as the runtime compares them, and a
  comparison with a border that is no number, as \<open>NaN\<close>, is false. Let a numeric binding
  be valid and not read-only. A write of a value of the numeric kind of the binding that
  is above the upper border or below the lower border fails with
  \<open>TcBindingOutOfRangeException\<close> and leaves the \<open>TcCom\<close> as it was: no call of the ADS
  client is made, neither to encode nor to write. A write that succeeds was given a value
  of that kind that is neither above the upper border nor below the lower one. Where both
  borders are numbers \<open>u\<close> and \<open>l\<close>, this is the claim: a value above \<open>u\<close> or below \<open>l\<close>
  is refused, and a write that succeeds was given a value between \<open>l\<close> and \<open>u\<close>. A
  border that is no number bounds nothing on its side: the check lets pass every value of
  the kind that the other border lets pass.
\<close>

theorem numeric_write_bounds:
  assumes "sym_kind this = TcNumericBinding type' d adst upper lower"
    and "b_isValid (sym_binding this)" and "\<not> sym_readOnly this"
  shows "(correct_numeric_kind adst v \<and> (js_gt v upper \<or> js_lt v lower) \<longrightarrow>
            TcBinding_write A this v com = (Inl TcBindingOutOfRangeException, com)) \<and>
         (TcBinding_write A this v com = (Inr w, com') \<longrightarrow>
            correct_numeric_kind adst v \<and> \<not> js_gt v upper \<and> \<not> js_lt v lower) \<and>
         (numeric upper = Some u \<and> numeric lower = Some l \<longrightarrow>
            (correct_numeric_kind adst v \<and> numeric v = Some x \<and> (u < x \<or> x < l) \<longrightarrow>
               TcBinding_write A this v com = (Inl TcBindingOutOfRangeException, com)) \<and>
            (TcBinding_write A this v com = (Inr w, com') \<longrightarrow>
               correct_numeric_kind adst v \<and> (\<exists>y. numeric v = Some y \<and> l \<le> y \<and> y \<le> u))) \<and>
         (numeric upper = None \<and> correct_numeric_kind adst v \<and> \<not> js_lt v lower \<longrightarrow>
            checkInput this v = None) \<and>
         (numeric lower = None \<and> correct_numeric_kind adst v \<and> \<not> js_gt v upper \<longrightarrow>
            checkInput this v = None)"
proof -
  note ci = numeric_checkInput [OF assms(1-3)]
  have refuse: "TcBinding_write A this v com = (Inl TcBindingOutOfRangeException, com)"
    if "correct_numeric_kind adst v" "js_gt v upper \<or> js_lt v lower"
  proof -
    from that have "checkInput this v = Some TcBindingOutOfRangeException"
      by (simp add: ci)
    then show ?thesis
      using assms(1,2) by (simp add: TcBinding_write_def toRaw.simps)
  qed
  have accept: "correct_numeric_kind adst v \<and> \<not> js_gt v upper \<and> \<not> js_lt v lower"
    if w: "TcBinding_write A this v com = (Inr w, com')"
  proof -
    have "checkInput this v = None"
      using w assms(1,2)
      by (cases "checkInput this v") (auto simp: TcBinding_write_def toRaw.simps)
    then show ?thesis
      by (auto simp: ci split: if_splits)
  qed
  have numbers1: "TcBinding_write A this v com = (Inl TcBindingOutOfRangeException, com)"
    if "numeric upper = Some u" "numeric lower = Some l"
      "correct_numeric_kind adst v" "numeric v = Some x" "u < x \<or> x < l"
  proof -
    from that have "js_gt v upper \<or> js_lt v lower"
      by (auto simp: js_gt_def js_lt_def)
    with that(3) show ?thesis by (rule refuse)
  qed
  have numbers2: "correct_numeric_kind adst v \<and> (\<exists>y. numeric v = Some y \<and> l \<le> y \<and> y \<le> u)"
    if "numeric upper = Some u" "numeric lower = Some l"
      and w: "TcBinding_write A this v com = (Inr w, com')"
  proof -
    from accept [OF w] have k: "correct_numeric_kind adst v"
      and r: "\<not> js_gt v upper" "\<not> js_lt v lower" by blast+
    from k obtain y where y: "numeric v = Some y"
      by (cases v) (auto simp: correct_numeric_kind_def split: if_splits)
    with r that(1,2) have "l \<le> y \<and> y \<le> u"
      by (auto simp: js_gt_def js_lt_def)
    with k y show ?thesis by blast
  qed
  have nan_upper: "checkInput this v = None"
    if "numeric upper = None" "correct_numeric_kind adst v" "\<not> js_lt v lower"
    using that by (simp add: ci js_gt_def js_lt_def split: option.splits)
  have nan_lower: "checkInput this v = None"
    if "numeric lower = None" "correct_numeric_kind adst v" "\<not> js_gt v upper"
    using that by (simp add: ci js_gt_def js_lt_def split: option.splits)
  show ?thesis
    using refuse accept numbers1 numbers2 nan_upper nan_lower by blast
qed

text \<open>
  On a \<open>BYTE\<close> with the borders 0 and 255: writing 256, the upper border plus one, is out of
  range; writing 5 succeeds. On the \<open>BYTE\<close> whose upper border is \<open>NaN\<close> the check lets
  100000 pass.
\<close>

theorem numeric_write_bounds_witness:
  "TcBinding_write ADS_sim byte_symbol (VNum 256) com_connected =
     (Inl TcBindingOutOfRangeException, com_connected) \<and>
   fst (TcBinding_write ADS_sim byte_symbol (VNum 5) com_connected) = Inr (VNum 5) \<and>
   (0::real) \<le> 5 \<and> (5::real) \<le> 255 \<and>
   \<not> js_gt (VNum 5) (VNum 255) \<and> \<not> js_lt (VNum 5) (VNum 0) \<and>
   checkInput byte_nan_symbol (VNum 100000) = None \<and>
   checkInput (lower_nan_symbol) (VNum 5) = None"
proof -
  have k: "sym_kind byte_symbol = TcNumericBinding ''BYTE'' (Some [0]) ADST_UINT8 (VNum 255) (VNum 0)"
    and v: "b_isValid (sym_binding byte_symbol)" and r: "\<not> sym_readOnly byte_symbol"
    by (simp_all add: byte_symbol_def)
  have n: "numeric (VNum 255) = Some 255 \<and> numeric (VNum 0) = Some 0" by simp
  have c: "correct_numeric_kind ADST_UINT8 (VNum 256) \<and> numeric (VNum 256) = Some 256 \<and>
           ((255::real) < 256 \<or> (256::real) < 0)"
    by (simp add: correct_numeric_kind_def ADST_defs)
  have g: "correct_numeric_kind ADST_UINT8 (VNum 256) \<and>
      (js_gt (VNum 256) (VNum 255) \<or> js_lt (VNum 256) (VNum 0))"
    by (simp add: correct_numeric_kind_def ADST_defs js_gt_def js_lt_def)
  note th = numeric_write_bounds [OF k v r]
  have 0: "TcBinding_write ADS_sim byte_symbol (VNum 256) com_connected =
          (Inl TcBindingOutOfRangeException, com_connected)"
    using th [of "VNum 256" ADS_sim com_connected] g by blast
  have 1: "TcBinding_write ADS_sim byte_symbol (VNum 256) com_connected =
          (Inl TcBindingOutOfRangeException, com_connected)"
    using th [of "VNum 256" ADS_sim com_connected _ _ 255 0 256] n c by blast
  obtain c' where
    w: "TcBinding_write ADS_sim byte_symbol (VNum 5) com_connected = (Inr (VNum 5), c')"
    by (simp add: TcBinding_write_def toRaw.simps byte_symbol_def checkInput_def
        TcSimpleBinding_checkInput_def TcBinding_checkInput_def ADST_defs js_gt_def js_lt_def
        TcCom_toRaw_def TcCom_write_def ADS_sim_def com_connected_def splitData_single)
  have 2: "\<exists>y. numeric (VNum 5) = Some y \<and> 0 \<le> y \<and> y \<le> 255"
    using th [of "VNum 5" ADS_sim com_connected "VNum 5" c' 255 0] n w by blast
  have 3: "\<not> js_gt (VNum 5) (VNum 255) \<and> \<not> js_lt (VNum 5) (VNum 0)"
    using th [of "VNum 5" ADS_sim com_connected "VNum 5" c'] w by blast
  have kn: "sym_kind byte_nan_symbol = TcNumericBinding ''BYTE'' (Some [0]) ADST_UINT8 VNaN (VNum 0)"
    and vn: "b_isValid (sym_binding byte_nan_symbol)" and rn: "\<not> sym_readOnly byte_nan_symbol"
    by (simp_all add: byte_nan_symbol_def)
  have hn: "numeric VNaN = None \<and> correct_numeric_kind ADST_UINT8 (VNum 100000) \<and>
      \<not> js_lt (VNum 100000) (VNum 0)"
    by (simp add: correct_numeric_kind_def ADST_defs js_lt_def)
  have 4: "checkInput byte_nan_symbol (VNum 100000) = None"
    using numeric_write_bounds [OF kn vn rn, of "VNum 100000"] hn by blast
  have kl: "sym_kind lower_nan_symbol = TcNumericBinding ''BYTE'' (Some [0]) ADST_UINT8 (VNum 255) VNaN"
    and vl: "b_isValid (sym_binding lower_nan_symbol)" and rl: "\<not> sym_readOnly lower_nan_symbol"
    by (simp_all add: lower_nan_symbol_def)
  have hl: "numeric VNaN = None \<and> correct_numeric_kind ADST_UINT8 (VNum 5) \<and>
      \<not> js_gt (VNum 5) (VNum 255)"
    by (simp add: correct_numeric_kind_def ADST_defs js_gt_def js_lt_def)
  have 5: "checkInput lower_nan_symbol (VNum 5) = None"
    using numeric_write_bounds [OF kl vl rl, of "VNum 5"] hl by blast
  show ?thesis using 1 w 2 3 4 5 by simp
qed

text \<open>
  C7 as stated fails on a border that is no number. The descriptor of \<open>BYTE\<close> with the
  attribute \<open>UpperBorder\<close> of \<open>abc\<close>, which \<open>parseFloat\<close> reads as \<open>NaN\<close>, gives a type and
  then a symbol whose upper border is \<open>NaN\<close>; the write of 100000 to it succeeds, and
  100000 is not at most the upper border.
\<close>

theorem numeric_write_nan_counterexample:
  "fst (TcNumericType_create ADS_sim parseFloat_300 BigInt_300 byte_nan_info com_connected) =
     Inr (Some byte_nan_type) \<and>
   instance' byte_nan_type ''MAIN.numericValue'' False (TcSymbolPointer 16448 200 1) =
     Inr byte_nan_symbol \<and>
   sym_kind byte_nan_symbol = TcNumericBinding ''BYTE'' (Some [0]) ADST_UINT8 VNaN (VNum 0) \<and>
   correct_numeric_kind ADST_UINT8 (VNum 100000) \<and>
   fst (TcBinding_write ADS_sim byte_nan_symbol (VNum 100000) com_connected) = Inr (VNum 100000) \<and>
   \<not> js_le (VNum 100000) VNaN"
proof (intro conjI)
  note lower = toLowerCase_def trim_def isWhiteSpace_def toLowerCase_char_def upperCase_def
    lowerCase_def
  show "fst (TcNumericType_create ADS_sim parseFloat_300 BigInt_300 byte_nan_info com_connected) =
     Inr (Some byte_nan_type)"
    by (simp add: TcNumericType_create_def create_encoded_def TcNumericType_new_def mutate_def
        byte_nan_info_def TcType_fields_of_info_def TcType_getParameter_def lower
        or_number_def Let_def TcCom_toRaw_def ADS_sim_def com_connected_def is64_def ADST_defs
        parseBorder_def parseFloat_300_def byte_nan_type_def byte_fields_def)
  show "instance' byte_nan_type ''MAIN.numericValue'' False (TcSymbolPointer 16448 200 1) =
     Inr byte_nan_symbol"
    by (simp add: byte_nan_type_def byte_fields_def byte_nan_symbol_def upperBorder_def
        lowerBorder_def ranges_def ADST_defs TcSimpleBinding_new_def TcSymbolBinding_new_def
        TcBinding_new_def Let_def)
  show "sym_kind byte_nan_symbol = TcNumericBinding ''BYTE'' (Some [0]) ADST_UINT8 VNaN (VNum 0)"
    by (simp add: byte_nan_symbol_def)
  show "correct_numeric_kind ADST_UINT8 (VNum 100000)"
    by (simp add: correct_numeric_kind_def ADST_defs)
  show "fst (TcBinding_write ADS_sim byte_nan_symbol (VNum 100000) com_connected) = Inr (VNum 100000)"
    by (simp add: TcBinding_write_def toRaw.simps byte_nan_symbol_def checkInput_def
        TcSimpleBinding_checkInput_def TcBinding_checkInput_def ADST_defs js_gt_def js_lt_def
        TcCom_toRaw_def TcCom_write_def ADS_sim_def com_connected_def splitData_single)
  show "\<not> js_le (VNum 100000) VNaN"
    by (simp add: js_le_def)
qed

section \<open>Writing to and reading from an enum binding\<close>

text \<open>
  C8, as the code has it: the checks of validity and of read-only come before the look-up
  of the name. For an enum binding that is valid and not read-only, the write of a string
  that is no key of the buffers, and no name that the buffers object inherits, fails with
  \<open>TcBindingOutOfRangeException\<close>, with no call of the ADS client; for a key, \<open>toRaw\<close> gives the one package with the buffer stored under
  the key and leaves the \<open>TcCom\<close> as it was, so the encoder is not called, and the write
  adds to the trace the one call of \<open>writeRawMulti\<close> with that package when there is a
  connection; and when the read pointer is answered by one package that the ADS client
  decodes to an object whose \<open>name\<close> is the string \<open>n\<close>, \<open>read\<close> returns the name of the
  type, a dot and \<open>n\<close>.
\<close>

theorem enum_write_read:
  assumes "sym_kind this = TcEnumBinding type' d fs bs"
    and "b_isValid (sym_binding this)" and "\<not> sym_readOnly this"
  shows
   "(obj_get bs s = None \<and> s \<notin> set Object_prototype_names \<longrightarrow>
       TcBinding_write A this (VStr s) com = (Inl TcBindingOutOfRangeException, com)) \<and>
    (obj_get bs s = Some buf \<longrightarrow>
       toRaw A this (VStr s) com =
         (Inr [TcDataPackage (b_indexGroup (sym_binding this)) (b_indexOffset (sym_binding this)) buf],
          com) \<and>
       trace (snd (TcBinding_write A this (VStr s) com)) =
         trace com @
         (if ads com = None then []
          else [WriteRawMulti [TcDataPackage (b_indexGroup (sym_binding this))
                                 (b_indexOffset (sym_binding this)) buf]])) \<and>
    (TcCom_read A (b_readPackages (sym_binding this)) com = (Inr [p], com1) \<and>
     TcCom_fromRaw A type' (pkg_data p) com1 = (Inr (VObj es), com2) \<and>
     map_of es ''name'' = Some (VStr n) \<longrightarrow>
       TcBinding_read A ToString this com = (Inr (VStr (type' @ ''.'' @ n)), com2))"
proof -
  have chk: "TcSimpleBinding_checkInput this (VStr s) = None"
    using assms(2,3) by (simp add: TcSimpleBinding_checkInput_def TcBinding_checkInput_def)
  have a: "obj_get bs s = None \<Longrightarrow>
       TcBinding_write A this (VStr s) com = (Inl TcBindingOutOfRangeException, com)"
    using assms(1,2) chk by (simp add: TcBinding_write_def toRaw.simps)
  have b1: "obj_get bs s = Some buf \<Longrightarrow> toRaw A this (VStr s) com =
         (Inr [TcDataPackage (b_indexGroup (sym_binding this)) (b_indexOffset (sym_binding this)) buf],
          com)"
    using assms(1) chk by (simp add: toRaw.simps)
  have b2: "obj_get bs s = Some buf \<Longrightarrow> trace (snd (TcBinding_write A this (VStr s) com)) =
         trace com @
         (if ads com = None then []
          else [WriteRawMulti [TcDataPackage (b_indexGroup (sym_binding this))
                                 (b_indexOffset (sym_binding this)) buf]])"
    using assms(2) b1
    by (auto simp: TcBinding_write_def TcCom_write_def splitData_single
        split: prod.splits option.splits sum.splits)
  have c: "TcCom_read A (b_readPackages (sym_binding this)) com = (Inr [p], com1) \<Longrightarrow>
     TcCom_fromRaw A type' (pkg_data p) com1 = (Inr (VObj es), com2) \<Longrightarrow>
     map_of es ''name'' = Some (VStr n) \<Longrightarrow>
       TcBinding_read A ToString this com = (Inr (VStr (type' @ ''.'' @ n)), com2)"
    using assms(1,2) by (simp add: TcBinding_read_def fromRaw.simps TcSimpleBinding_fromRaw_def)
  show ?thesis using a b1 b2 c by blast
qed


text \<open>
  On the enum variable of \<open>MAIN\<close>: \<open>MyEnum.member9\<close> is out of range, \<open>MyEnum.member2\<close> is
  written as its stored buffer, and the name \<open>member2\<close> is read as \<open>MyEnum.member2\<close>.
\<close>

theorem enum_write_read_witness:
  "TcBinding_write ADS_sim (enum_symbol False) (VStr ''MyEnum.member9'') com_connected =
     (Inl TcBindingOutOfRangeException, com_connected) \<and>
   trace (snd (TcBinding_write ADS_sim (enum_symbol False) (VStr ''MyEnum.member2'') com_connected)) =
     [WriteRawMulti [TcDataPackage 16448 300 [1, 0]]] \<and>
   fst (TcBinding_read ADS_sim (\<lambda>v. []) (enum_symbol False) com_member2) =
     Inr (VStr ''MyEnum.member2'')"
proof -
  let ?bs = "[(''MyEnum.member1'', [0, 0]), (''MyEnum.member2'', [1, 0::nat])]"
  have k: "sym_kind (enum_symbol False) =
      TcEnumBinding ''MyEnum'' (Some [0, 0]) [''MyEnum.member1'', ''MyEnum.member2''] ?bs"
    and v: "b_isValid (sym_binding (enum_symbol False))"
    and r: "\<not> sym_readOnly (enum_symbol False)"
    by (simp_all add: enum_symbol_def)
  have n9: "obj_get ?bs ''MyEnum.member9'' = None \<and>
      ''MyEnum.member9'' \<notin> set Object_prototype_names"
    by (simp add: obj_get_def Object_prototype_names_def)
  have n2: "obj_get ?bs ''MyEnum.member2'' = Some [1, 0]" by (simp add: obj_get_def)
  obtain p com1 where
    rd: "TcCom_read ADS_sim (b_readPackages (sym_binding (enum_symbol False))) com_member2 =
           (Inr [p], com1)"
    and p: "p = TcDataPackage 16448 300 [1, 0]"
    and c1: "com1 = com_member2\<lparr>trace := [ReadRawMulti [TcSymbolPointer 16448 300 2]]\<rparr>"
    by (simp add: TcCom_read_def enum_symbol_def com_member2_def splitData_single ADS_sim_def
        last_written_def)
  obtain es com2 where
    fr: "TcCom_fromRaw ADS_sim ''MyEnum'' (pkg_data p) com1 = (Inr (VObj es), com2)"
    and nm: "map_of es ''name'' = Some (VStr ''member2'')"
    by (simp add: TcCom_fromRaw_def p c1 com_member2_def ADS_sim_def)
  note th = enum_write_read [OF k v r]
  have "TcBinding_write ADS_sim (enum_symbol False) (VStr ''MyEnum.member9'') com_connected =
     (Inl TcBindingOutOfRangeException, com_connected)"
    using th [of "''MyEnum.member9''" ADS_sim com_connected] n9 by blast
  moreover have "trace (snd (TcBinding_write ADS_sim (enum_symbol False) (VStr ''MyEnum.member2'')
        com_connected)) = [WriteRawMulti [TcDataPackage 16448 300 [1, 0]]]"
    using th [of "''MyEnum.member2''" ADS_sim com_connected "[1, 0]"] n2
    by (simp add: com_connected_def enum_symbol_def)
  moreover have "TcBinding_read ADS_sim (\<lambda>v. []) (enum_symbol False) com_member2 =
      (Inr (VStr (''MyEnum'' @ ''.'' @ ''member2'')), com2)"
    using th [of _ ADS_sim com_member2 _ p com1 es com2 "''member2''" "\<lambda>v. []"] rd fr nm
    by blast
  ultimately show ?thesis by simp
qed

text \<open>
  C8 as stated, for every enum binding, fails on a read-only one: the write of a string
  that is no key fails with \<open>TcBindingReadOnlyException\<close>.
\<close>

theorem enum_write_readOnly_counterexample:
  "obj_get [(''MyEnum.member1'', [0, 0]), (''MyEnum.member2'', [1, 0::nat])] ''MyEnum.member9'' = None \<and>
   TcBinding_write ADS_sim (enum_symbol True) (VStr ''MyEnum.member9'') com_connected =
     (Inl TcBindingReadOnlyException, com_connected)"
  by (simp add: obj_get_def TcBinding_write_def toRaw.simps enum_symbol_def
      TcSimpleBinding_checkInput_def TcBinding_checkInput_def)

section \<open>Invalidation of the symbol graph\<close>

lemma invalidate_flag: "\<not> b_isValid (sym_binding (invalidate s))"
  by (cases s) (simp add: TcBinding_invalidate_def)

lemma descendants_invalidate: "descendants (invalidate s) = map invalidate (descendants s)"
proof (induction s rule: invalidate.induct)
  case (1 path readOnly kind' b children)
  show ?case
  proof (cases "is_composite kind'")
    case True
    have "concat (map (\<lambda>child. snd child # descendants (snd child))
                   (map (\<lambda>child. (fst child, invalidate (snd child))) children)) =
          map invalidate (concat (map (\<lambda>child. snd child # descendants (snd child)) children))"
      using 1 [OF True] by (induction children) (auto simp: map_concat)
    then show ?thesis using True by simp
  next
    case False
    then show ?thesis by simp
  qed
qed

lemma invalid_refused:
  "\<not> b_isValid (sym_binding s) \<Longrightarrow> invalidated A ToString v com s"
  by (simp add: invalidated_def refused_def TcBinding_read_def TcBinding_write_def
      TcBinding_clear_def)

text \<open>
  C2. After a symbol has been invalidated, it and every symbol below it, which are the
  invalidated symbols that were below it before, have the flag of validity down, and every
  \<open>read\<close>, \<open>write\<close> and \<open>clear\<close> on one of them fails with
  \<open>TcBindingIsInvalidException\<close> and leaves the \<open>TcCom\<close> as it was, so no call reaches the
  transport. The same holds of every namespace that \<open>destroy\<close> of the symbol registry
  has invalidated, and of every symbol below it.
\<close>

theorem invalidate_all:
  "descendants (invalidate rootSymbol) = map invalidate (descendants rootSymbol) \<and>
   (\<forall>s \<in> set (invalidate rootSymbol # descendants (invalidate rootSymbol)). invalidated A ToString v com s) \<and>
   (\<forall>entry \<in> set (fst (TcSymbolRegistry_destroy ctx)).
      \<forall>s \<in> set (snd entry # descendants (snd entry)). invalidated A ToString v com s)"
proof (intro conjI ballI)
  show "descendants (invalidate rootSymbol) = map invalidate (descendants rootSymbol)"
    by (rule descendants_invalidate)
next
  fix s assume "s \<in> set (invalidate rootSymbol # descendants (invalidate rootSymbol))"
  then have "\<not> b_isValid (sym_binding s)"
    by (auto simp: descendants_invalidate invalidate_flag)
  then show "invalidated A ToString v com s" by (rule invalid_refused)
next
  fix entry s
  assume "entry \<in> set (fst (TcSymbolRegistry_destroy ctx))"
    and s: "s \<in> set (snd entry # descendants (snd entry))"
  then obtain namespace where "snd entry = invalidate namespace"
    by (auto simp: TcSymbolRegistry_destroy_def)
  with s have "\<not> b_isValid (sym_binding s)"
    by (auto simp: descendants_invalidate invalidate_flag)
  then show "invalidated A ToString v com s" by (rule invalid_refused)
qed

text \<open>On the namespace \<open>MAIN\<close> with its two variables, alone and in the registry.\<close>

theorem invalidate_all_witness:
  "list_all (invalidated ADS_sim (\<lambda>v. []) (VNum 5) com_connected)
     (invalidate main_namespace # descendants (invalidate main_namespace)) \<and>
   map sym_path (invalidate main_namespace # descendants (invalidate main_namespace)) =
     [''MAIN'', ''MAIN.numericValue'', ''MAIN.enumValue''] \<and>
   map (sym_path \<circ> snd) (fst (TcSymbolRegistry_destroy ctx_main)) = [''MAIN''] \<and>
   list_all (\<lambda>entry. list_all (invalidated ADS_sim (\<lambda>v. []) (VNum 5) com_connected)
               (snd entry # descendants (snd entry)))
     (fst (TcSymbolRegistry_destroy ctx_main))"
  using invalidate_all [of main_namespace ADS_sim "\<lambda>v. []" "VNum 5" com_connected ctx_main]
  by (simp add: list_all_iff main_namespace_def byte_symbol_def enum_symbol_def
      TcSymbolRegistry_destroy_def ctx_main_def)

section \<open>Clearing a structure with a read-only member\<close>

text \<open>
  C1 does not hold of the code. The constructor of \<open>TcSimpleBinding\<close> pushes the clear
  package of a leaf whenever the type has a default buffer, whether the symbol is
  read-only or not, and \<open>__addChild\<close> appends the packages of every child. For the
  structure of the documentation, with a \<open>REAL\<close> member and a read-only \<open>STRING(50)\<close>
  member, at offset 1000: the string member is read-only and has a clear package, the
  structure is not read-only, its clear packages are those of both members, and its
  \<open>clear\<close> writes both, the read-only member with them.
\<close>

theorem clear_writes_readOnly_child:
  "map_sum id
     (\<lambda>s. (map (\<lambda>(k, c). (k, sym_readOnly c, b_clearPackages (sym_binding c))) (sym_children s),
           sym_readOnly s,
           b_clearPackages (sym_binding s),
           TcBinding_clear ADS_sim s com_connected))
     (instance' struct_type ''MAIN.structuredValue'' False (TcSymbolPointer 16448 1000 55)) =
   Inr ([(Name ''realValue'', False, [TcDataPackage 16448 1000 [0, 0, 0, 0]]),
         (Name ''stringValue'', True, [TcDataPackage 16448 1004 []])],
        False,
        [TcDataPackage 16448 1000 [0, 0, 0, 0], TcDataPackage 16448 1004 []],
        (Inr (),
         \<lparr>ads = Some [TcDataPackage 16448 1000 [0, 0, 0, 0], TcDataPackage 16448 1004 []],
          trace = [WriteRawMulti [TcDataPackage 16448 1000 [0, 0, 0, 0],
                                  TcDataPackage 16448 1004 []]]\<rparr>))"
  by (simp add: struct_type_def real_type_def readOnly_string_type_def upperBorder_def
      lowerBorder_def ranges_def ADST_defs TcSimpleBinding_new_def TcSymbolBinding_new_def
      TcBinding_new_def TcSymbol_addChild_def TcComplexBinding_addChild_def
      TcBinding_clear_def TcCom_write_def com_connected_def ADS_sim_def splitData_def
      splitData_loop.simps [of "[x, y]" for x y] slice_def Let_def)

section \<open>Growth of a namespace binding\<close>

text \<open>
  C5 does not hold of the code. \<open>TcNamespaceBinding.__addChild\<close> grows the size only for
  a child that starts beyond the end of the interval, or before its start. A child that
  starts at the end, or within the interval, and ends beyond it leaves the size as it
  was: after the children at the offsets 10 and 14, four bytes each, the namespace spans
  the offsets 10 to 14, not 10 to 18.
\<close>

theorem namespace_adjacent_child_not_absorbed:
  "map_prod id (\<lambda>ns. (b_indexGroup (sym_binding ns), b_indexOffset (sym_binding ns),
                       b_size (sym_binding ns)))
     (TcNamespaceSymbol_addChildren (TcNamespaceSymbol_new ''MAIN'')
        [(Name ''a'', bool_symbol ''MAIN.a'' 10 4), (Name ''b'', bool_symbol ''MAIN.b'' 14 4)]) =
   (Inr (), (16448, 10, 4))"
  by (simp add: TcNamespaceSymbol_new_def TcNamespaceSymbol_addChild_def
      TcNamespaceBinding_addChild_def TcComplexBinding_addChild_def TcBinding_new_def
      bool_symbol_def Let_def)

section \<open>Writing part of a structure or namespace\<close>




























end
